theory Spec2Isabelle
  imports Complex_Main "HOL-Library.Sublist"
begin

section \<open>The stream bridge (streaming/streamify.ts)\<close>

text \<open>
  The class \<open>Streamify\<close> extends Node's \<open>Duplex\<close> and talks to two kinds of objects it
  does not own: a source (a \<open>Readable\<close>) and a destination (a \<open>Writable\<close>). JavaScript
  objects are references, so the streams live in a store indexed by their address and
  the bridge holds addresses. Every function object the bridge creates (a relay listener,
  \<open>onend\<close>, \<open>onreadable\<close>) carries the number of its creation: \<open>removeListener\<close>
  compares listeners by identity.
\<close>

subsection \<open>Streams outside the bridge\<close>

type_synonym ref = nat
type_synonym chunk = string
type_synonym BufferEncoding = string
type_synonym callback = nat

datatype error = Error string | TypeError string

datatype listener =
    Relay nat string
  | OnEnd nat
  | OnReadable nat "nat option"

text \<open>
  A stream object: its listeners in registration order (the flag marks a registration
  through \<open>once\<close>), the values its next calls of \<open>read\<close> return (\<open>None\<close> is
  \<open>null\<close>; an exhausted list returns \<open>null\<close>), the calls of \<open>write\<close> it has received,
  and whether \<open>end\<close> was called on it. A \<open>Writable\<close> completes every write it received by
  calling that write's callback once, so the third column of \<open>writes\<close> is the sequence of
  completion callbacks the stream owes.
\<close>

record stream_obj =
  handlers :: "(string \<times> listener \<times> bool) list"
  reads :: "chunk option list"
  writes :: "(chunk \<times> BufferEncoding \<times> callback) list"
  ended :: bool

subsection \<open>The fields of the class\<close>

definition SOURCE_EVENTS :: "string list" where
  "SOURCE_EVENTS = [''error'', ''close'']"

definition DEST_EVENTS :: "string list" where
  "DEST_EVENTS = [''drain'', ''close'']"

record Source =
  s_stream :: ref
  s_listeners :: "string \<rightharpoonup> listener"
  onend :: listener
  onreadable :: "listener option"

record Dest =
  d_stream :: ref
  d_listeners :: "string \<rightharpoonup> listener"

text \<open>
  The private fields keep their names without the leading underscore. The last three
  fields are the state of the \<open>Duplex\<close> base the class relies on: what \<open>this.push\<close> has
  handed to the readable side (\<open>None\<close> is the end-of-stream mark \<open>push(null)\<close>), the
  events \<open>this.emit\<close> raised on the bridge itself, and whether the constructor's
  \<open>once('finish', ...)\<close> listener is still registered.
\<close>

record Streamify =
  source :: "Source option"
  dest :: "Dest option"
  sourceRead :: "nat option"
  destWritten :: "(chunk \<times> BufferEncoding \<times> callback) list"
  readable :: bool
  writable :: bool
  pushed :: "chunk option list"
  emitted :: "string list"
  finish_once :: bool

record world =
  bridge :: Streamify
  heap :: "ref \<Rightarrow> stream_obj"
  fresh :: nat

definition upd_stream :: "ref \<Rightarrow> (stream_obj \<Rightarrow> stream_obj) \<Rightarrow> world \<Rightarrow> world" where
  "upd_stream r f w = w\<lparr>heap := (heap w)(r := f (heap w r))\<rparr>"

definition upd_bridge :: "(Streamify \<Rightarrow> Streamify) \<Rightarrow> world \<Rightarrow> world" where
  "upd_bridge f w = w\<lparr>bridge := f (bridge w)\<rparr>"

subsection \<open>The methods of EventEmitter, Readable and Writable the bridge calls\<close>

definition stream_on :: "ref \<Rightarrow> string \<Rightarrow> listener \<Rightarrow> world \<Rightarrow> world" where
  "stream_on r ev l = upd_stream r (\<lambda>s. s\<lparr>handlers := handlers s @ [(ev, l, False)]\<rparr>)"

definition stream_once :: "ref \<Rightarrow> string \<Rightarrow> listener \<Rightarrow> world \<Rightarrow> world" where
  "stream_once r ev l = upd_stream r (\<lambda>s. s\<lparr>handlers := handlers s @ [(ev, l, True)]\<rparr>)"

fun remove_first :: "('a \<Rightarrow> bool) \<Rightarrow> 'a list \<Rightarrow> 'a list" where
  "remove_first P [] = []"
| "remove_first P (x # xs) = (if P x then xs else x # remove_first P xs)"

definition registered :: "string \<Rightarrow> listener \<Rightarrow> string \<times> listener \<times> bool \<Rightarrow> bool" where
  "registered ev l h = (fst h = ev \<and> fst (snd h) = l)"

text \<open>
  \<open>removeListener\<close> takes away at most one registration, the most recently added one,
  and throws a \<open>TypeError\<close> when its second argument is not a function
  (\<open>undefined\<close> here).
\<close>

definition stream_removeListener ::
    "ref \<Rightarrow> string \<Rightarrow> listener option \<Rightarrow> world \<Rightarrow> error option \<times> world" where
  "stream_removeListener r ev lo w =
     (case lo of
        None \<Rightarrow> (Some (TypeError ''The listener argument must be of type function''), w)
      | Some l \<Rightarrow>
          (None, upd_stream r
             (\<lambda>s. s\<lparr>handlers := rev (remove_first (registered ev l) (rev (handlers s)))\<rparr>) w))"

definition stream_read :: "ref \<Rightarrow> nat option \<Rightarrow> world \<Rightarrow> chunk option \<times> world" where
  "stream_read r sz w =
     (case reads (heap w r) of
        [] \<Rightarrow> (None, w)
      | x # xs \<Rightarrow> (x, upd_stream r (\<lambda>s. s\<lparr>reads := xs\<rparr>) w))"

definition stream_write :: "ref \<Rightarrow> chunk \<times> BufferEncoding \<times> callback \<Rightarrow> world \<Rightarrow> world" where
  "stream_write r args = upd_stream r (\<lambda>s. s\<lparr>writes := writes s @ [args]\<rparr>)"

definition stream_end :: "ref \<Rightarrow> world \<Rightarrow> world" where
  "stream_end r = upd_stream r (\<lambda>s. s\<lparr>ended := True\<rparr>)"

text \<open>A JavaScript condition on a chunk: \<open>null\<close> and the empty string are falsy.\<close>

fun truthy :: "chunk option \<Rightarrow> bool" where
  "truthy None = False"
| "truthy (Some c) = (c \<noteq> [])"

text \<open>
  \<open>Readable.push\<close>: a chunk is appended to what the readable side delivers, \<open>null\<close>
  marks its end. After the end mark a further \<open>push(null)\<close> is ignored and a further
  chunk is refused with an \<open>error\<close> event.
\<close>

definition push :: "chunk option \<Rightarrow> Streamify \<Rightarrow> Streamify" where
  "push c b =
     (if None \<in> set (pushed b)
      then (case c of None \<Rightarrow> b | Some d \<Rightarrow> b\<lparr>emitted := emitted b @ [''error'']\<rparr>)
      else b\<lparr>pushed := pushed b @ [c]\<rparr>)"

definition emit :: "string \<Rightarrow> Streamify \<Rightarrow> Streamify" where
  "emit ev b = b\<lparr>emitted := emitted b @ [ev]\<rparr>"

text \<open>Sequencing of calls that may throw: the first error ends the run.\<close>

definition and_then ::
    "(world \<Rightarrow> error option \<times> world) \<Rightarrow> (world \<Rightarrow> error option \<times> world) \<Rightarrow>
     world \<Rightarrow> error option \<times> world" where
  "and_then f g w = (case f w of (None, w') \<Rightarrow> g w' | (Some e, w') \<Rightarrow> (Some e, w'))"

fun forEach :: "('a \<Rightarrow> world \<Rightarrow> error option \<times> world) \<Rightarrow> 'a list \<Rightarrow> world \<Rightarrow> error option \<times> world" where
  "forEach f [] w = (None, w)"
| "forEach f (x # xs) w = and_then (f x) (forEach f xs) w"

subsection \<open>The methods of the class\<close>

text \<open>The constructor; an option left out defaults to \<open>true\<close>.\<close>

definition streamify :: "bool option \<Rightarrow> bool option \<Rightarrow> Streamify" where
  "streamify readable_opt writable_opt =
     (let r = (case readable_opt of None \<Rightarrow> True | Some v \<Rightarrow> v);
          wr = (case writable_opt of None \<Rightarrow> True | Some v \<Rightarrow> v)
      in \<lparr>source = None, dest = None, sourceRead = None, destWritten = [],
          readable = r, writable = wr, pushed = [], emitted = [], finish_once = wr\<rparr>)"

text \<open>The listener the constructor registers for the bridge's own \<open>finish\<close>.\<close>

definition on_finish :: "world \<Rightarrow> world" where
  "on_finish w =
     (if finish_once (bridge w)
      then (let w1 = upd_bridge (\<lambda>b. b\<lparr>finish_once := False\<rparr>) w
            in case dest (bridge w1) of
                 Some d \<Rightarrow> stream_end (d_stream d) w1
               | None \<Rightarrow> w1)
      else w)"

text \<open>The body of the closure \<open>onreadable\<close> that \<open>_read(size)\<close> creates.\<close>

definition onreadable_call :: "nat \<Rightarrow> nat option \<Rightarrow> world \<Rightarrow> world" where
  "onreadable_call i sz w =
     (case source (bridge w) of
        None \<Rightarrow> w
      | Some src \<Rightarrow>
          (case stream_read (s_stream src) sz w of
             (data, w1) \<Rightarrow>
               if truthy data then upd_bridge (push data) w1
               else stream_once (s_stream src) ''readable'' (OnReadable i sz) w1))"

definition Streamify_read :: "nat option \<Rightarrow> world \<Rightarrow> world" where
  "Streamify_read sz w =
     (case source (bridge w) of
        Some src \<Rightarrow>
          (let i = fresh w;
               w1 = upd_bridge
                      (\<lambda>b. b\<lparr>source := Some (src\<lparr>onreadable := Some (OnReadable i sz)\<rparr>)\<rparr>)
                      (w\<lparr>fresh := Suc i\<rparr>)
           in onreadable_call i sz w1)
      | None \<Rightarrow> upd_bridge (\<lambda>b. b\<lparr>sourceRead := sz\<rparr>) w)"

definition Streamify_write :: "chunk \<Rightarrow> BufferEncoding \<Rightarrow> callback \<Rightarrow> world \<Rightarrow> world" where
  "Streamify_write c encoding cb w =
     (case dest (bridge w) of
        Some d \<Rightarrow> stream_write (d_stream d) (c, encoding, cb) w
      | None \<Rightarrow> upd_bridge (\<lambda>b. b\<lparr>destWritten := destWritten b @ [(c, encoding, cb)]\<rparr>) w)"

text \<open>One round of the \<open>forEach\<close> over \<open>SOURCE_EVENTS\<close> in \<open>addSource\<close>.\<close>

definition relay_source :: "ref \<Rightarrow> string \<Rightarrow> world \<Rightarrow> world" where
  "relay_source r event w =
     (let onevent = Relay (fresh w) event;
          w1 = upd_bridge
                 (\<lambda>b. b\<lparr>source := map_option
                          (\<lambda>src. src\<lparr>s_listeners := (s_listeners src)(event \<mapsto> onevent)\<rparr>)
                          (source b)\<rparr>)
                 (w\<lparr>fresh := Suc (fresh w)\<rparr>)
      in stream_on r event onevent w1)"

definition addSource :: "ref \<Rightarrow> world \<Rightarrow> error option \<times> world" where
  "addSource r w =
     (if source (bridge w) \<noteq> None
      then (Some (Error ''A source stream has already been added.''), w)
      else
        (let l = OnEnd (fresh w);
             w1 = upd_bridge
                    (\<lambda>b. b\<lparr>source := Some \<lparr>s_stream = r, s_listeners = Map.empty,
                                            onend = l, onreadable = None\<rparr>\<rparr>)
                    (w\<lparr>fresh := Suc (fresh w)\<rparr>);
             w2 = fold (relay_source r) SOURCE_EVENTS w1;
             w3 = stream_on r ''end'' l w2
         in (None, Streamify_read (sourceRead (bridge w3)) w3)))"

definition removeSource :: "world \<Rightarrow> error option \<times> world" where
  "removeSource w =
     (case source (bridge w) of
        None \<Rightarrow> (Some (Error ''A source stream has not been added.''), w)
      | Some src \<Rightarrow>
          and_then
            (forEach (\<lambda>event. stream_removeListener (s_stream src) event (s_listeners src event))
               SOURCE_EVENTS)
            (and_then (stream_removeListener (s_stream src) ''readable'' (onreadable src))
               (and_then (stream_removeListener (s_stream src) ''end'' (Some (onend src)))
                  (\<lambda>w'. (None, upd_bridge (\<lambda>b. b\<lparr>source := None\<rparr>) w'))))
            w)"

text \<open>One round of the \<open>forEach\<close> over \<open>DEST_EVENTS\<close> in \<open>addDest\<close>.\<close>

definition relay_dest :: "ref \<Rightarrow> string \<Rightarrow> world \<Rightarrow> world" where
  "relay_dest r event w =
     (let onevent = Relay (fresh w) event;
          w1 = upd_bridge
                 (\<lambda>b. b\<lparr>dest := map_option
                          (\<lambda>d. d\<lparr>d_listeners := (d_listeners d)(event \<mapsto> onevent)\<rparr>)
                          (dest b)\<rparr>)
                 (w\<lparr>fresh := Suc (fresh w)\<rparr>)
      in stream_on r event onevent w1)"

definition addDest :: "ref \<Rightarrow> world \<Rightarrow> error option \<times> world" where
  "addDest r w =
     (if dest (bridge w) \<noteq> None
      then (Some (Error ''A destination stream has already been added.''), w)
      else
        (let w1 = upd_bridge (\<lambda>b. b\<lparr>dest := Some \<lparr>d_stream = r, d_listeners = Map.empty\<rparr>\<rparr>) w;
             w2 = fold (relay_dest r) DEST_EVENTS w1
         in (None,
             if destWritten (bridge w2) \<noteq> []
             then upd_bridge (\<lambda>b. b\<lparr>destWritten := []\<rparr>)
                    (fold (stream_write r) (destWritten (bridge w2)) w2)
             else w2)))"

definition removeDest :: "world \<Rightarrow> error option \<times> world" where
  "removeDest w =
     (case dest (bridge w) of
        None \<Rightarrow> (Some (Error ''A destination stream has not been added.''), w)
      | Some d \<Rightarrow>
          and_then
            (forEach (\<lambda>event. stream_removeListener (d_stream d) event (d_listeners d event))
               DEST_EVENTS)
            (\<lambda>w'. (None, upd_bridge (\<lambda>b. b\<lparr>dest := None, destWritten := []\<rparr>) w'))
            w)"

subsection \<open>Events of an attached stream\<close>

text \<open>What each function object the bridge registered does when the stream calls it.\<close>

fun run_listener :: "listener \<Rightarrow> world \<Rightarrow> world" where
  "run_listener (Relay i event) w = upd_bridge (emit event) w"
| "run_listener (OnEnd i) w = upd_bridge (push None) w"
| "run_listener (OnReadable i sz) w = onreadable_call i sz w"

text \<open>
  The stream at \<open>r\<close> emits \<open>ev\<close>: the listeners registered for it run in registration
  order, and those registered through \<open>once\<close> are registered no longer.
\<close>

definition stream_emit :: "ref \<Rightarrow> string \<Rightarrow> world \<Rightarrow> world" where
  "stream_emit r ev w =
     (let hs = handlers (heap w r);
          w1 = upd_stream r (\<lambda>s. s\<lparr>handlers := filter (\<lambda>h. \<not> (fst h = ev \<and> snd (snd h))) hs\<rparr>) w
      in fold run_listener (map (\<lambda>h. fst (snd h)) (filter (\<lambda>h. fst h = ev) hs)) w1)"

text \<open>A bridge just constructed with the default options, and no stream with any history.\<close>

definition new_stream :: stream_obj where
  "new_stream = \<lparr>handlers = [], reads = [], writes = [], ended = False\<rparr>"

definition world0 :: world where
  "world0 = \<lparr>bridge = streamify None None, heap = (\<lambda>r. new_stream), fresh = 0\<rparr>"

section \<open>The dispatcher (proxy/ProxyServer.ts)\<close>

subsection \<open>JavaScript values\<close>

text \<open>
  The values a request payload can be, with what \<open>typeof\<close> and a condition make of
  them. \<open>ReadableStream\<close> and \<open>Buffer\<close> are the objects for which
  \<open>instanceof Readable\<close> and \<open>instanceof Buffer\<close> hold; \<open>Null\<close>, \<open>Object\<close> and
  \<open>Array\<close> are the other values whose \<open>typeof\<close> is \<open>object\<close>.
\<close>

datatype jsvalue =
    Undefined
  | Null
  | String string
  | Number int
  | Boolean bool
  | BigInt int
  | Symbol string
  | Function string
  | ReadableStream ref
  | Buffer string
  | Object "(string \<times> jsvalue) list"
  | Array "jsvalue list"

fun typeof :: "jsvalue \<Rightarrow> string" where
  "typeof Undefined = ''undefined''"
| "typeof Null = ''object''"
| "typeof (String s) = ''string''"
| "typeof (Number n) = ''number''"
| "typeof (Boolean b) = ''boolean''"
| "typeof (BigInt n) = ''bigint''"
| "typeof (Symbol s) = ''symbol''"
| "typeof (Function f) = ''function''"
| "typeof (ReadableStream r) = ''object''"
| "typeof (Buffer b) = ''object''"
| "typeof (Object kvs) = ''object''"
| "typeof (Array vs) = ''object''"


text \<open>\<open>String.prototype.toUpperCase\<close> on the letters an HTTP method is written in.\<close>

definition toUpperCase :: "string \<Rightarrow> string" where
  "toUpperCase s =
     map (\<lambda>c. case map_of (zip ''abcdefghijklmnopqrstuvwxyz'' ''ABCDEFGHIJKLMNOPQRSTUVWXYZ'') c of
               Some u \<Rightarrow> u
             | None \<Rightarrow> c) s"

text \<open>
  \<open>JSON.stringify\<close> and \<open>Buffer.prototype.toString\<close> belong to the platform; the model
  takes them as given. \<open>JSON.stringify\<close> returns a text or throws (a \<open>TypeError\<close> for
  a value that holds a bigint or refers to itself).
\<close>

record runtime =
  JSON_stringify :: "jsvalue \<Rightarrow> error + string"
  Buffer_toString :: "string \<Rightarrow> string"

subsection \<open>The constructor\<close>

type_synonym headers = "string \<rightharpoonup> string"

record Request =
  r_method :: string
  r_headers :: headers
  r_pathname :: string
  r_payload :: jsvalue

text \<open>
  The fields of the class (\<open>method\<close> is written \<open>http_method\<close>);
  \<open>proxy_listeners\<close> lists the events of \<open>this.proxy\<close> for which
  \<open>setupProxyEvents\<close> has registered a listener.
\<close>

record ProxyServer =
  target :: string
  headers :: headers
  http_method :: string
  path :: string
  body :: jsvalue
  proxy_listeners :: "string list"

definition setupProxyEvents :: "ProxyServer \<Rightarrow> ProxyServer" where
  "setupProxyEvents ps = ps\<lparr>proxy_listeners := proxy_listeners ps @ [''proxyReq'', ''error'']\<rparr>"

definition ProxyServer_new :: "runtime \<Rightarrow> Request \<Rightarrow> string \<Rightarrow> error + ProxyServer" where
  "ProxyServer_new js request tgt =
     (let ps = \<lparr>target = tgt, headers = r_headers request,
                http_method = toUpperCase (r_method request),
                path = (if r_pathname request \<noteq> [] then r_pathname request else []),
                body = String [], proxy_listeners = []\<rparr>;
          payload = r_payload request
      in if http_method ps = ''POST'' \<or> http_method ps = ''PUT''
         then
           (if typeof payload = ''string'' then Inr (setupProxyEvents (ps\<lparr>body := payload\<rparr>))
            else if typeof payload = ''object'' then
              (case payload of
                 ReadableStream r \<Rightarrow> Inr (setupProxyEvents (ps\<lparr>body := payload\<rparr>))
               | Buffer b \<Rightarrow> Inr (setupProxyEvents (ps\<lparr>body := String (Buffer_toString js b)\<rparr>))
               | _ \<Rightarrow>
                   (case JSON_stringify js payload of
                      Inl e \<Rightarrow> Inl e
                    | Inr s \<Rightarrow> Inr (setupProxyEvents (ps\<lparr>body := String s\<rparr>))))
            else if typeof payload = ''undefined'' then Inr (setupProxyEvents ps)
            else Inl (Error ''Unsupported payload type''))
         else Inr (setupProxyEvents ps))"

subsection \<open>dispatch\<close>


text \<open>
  The bridge \<open>dispatch\<close> builds around a body that is not a stream: read-only, fed the
  text, then the end mark.
\<close>

definition body_bridge :: "string \<Rightarrow> Streamify" where
  "body_bridge s = push None (push (Some s) (streamify (Some True) (Some False)))"




subsection \<open>The response events\<close>

record IncomingMessage =
  url :: string
  im_headers :: headers

record ProxyRes =
  pr_statusCode :: "nat option"
  pr_statusMessage :: "string option"

record Timings =
  startTime :: "real option"
  firstByteTime :: "real option"
  endTime :: "real option"
  closeTime :: "real option"

record ResponseDetails =
  statusCode :: "nat option"
  statusMessage :: "string option"
  timings :: "Timings option"

datatype lifecycle = FirstByte | End | Close

text \<open>
  The interface \<open>Tracer\<close> of tracer/types.ts. A hook receives the request, the upstream
  response and the shared \<open>ResponseDetails\<close>; \<open>'t\<close> is whatever else the tracers keep
  (their fields, the console, the collector). A hook is a call that returns.
\<close>

record 't Tracer =
  onFirstByteReceived :: "IncomingMessage \<Rightarrow> ProxyRes \<Rightarrow> ResponseDetails \<times> 't \<Rightarrow> ResponseDetails \<times> 't"
  onEnd :: "IncomingMessage \<Rightarrow> ProxyRes \<Rightarrow> ResponseDetails \<times> 't \<Rightarrow> ResponseDetails \<times> 't"
  onClose :: "IncomingMessage \<Rightarrow> ProxyRes \<Rightarrow> ResponseDetails \<times> 't \<Rightarrow> ResponseDetails \<times> 't"

datatype 't tracers = Single "'t Tracer" | Many "'t Tracer list"

text \<open>
  What the dispatcher does that can be observed, in the order it does it: a hook of the
  tracer at an index is called, it returns, and the calls on the sink \<open>res\<close>.
\<close>

datatype effect =
    HookStart lifecycle nat
  | HookReturn lifecycle nat
  | SetHeader string string
  | WriteHead nat "(string \<times> string) list"
  | ResEnd "string option"
  | Pipe

text \<open>
  One proxied request: the \<open>responseDetails\<close> object of the \<open>proxyReq\<close> listener, the
  tracers' state, the effects so far, and the upstream response whose \<open>end\<close> and
  \<open>close\<close> events have a listener.
\<close>

record 't exchange =
  details :: ResponseDetails
  tstate :: 't
  effects :: "effect list"
  response :: "ProxyRes option"

definition say :: "effect \<Rightarrow> 't exchange \<Rightarrow> 't exchange" where
  "say e x = x\<lparr>effects := effects x @ [e]\<rparr>"

definition hook :: "lifecycle \<Rightarrow> 't Tracer \<Rightarrow>
    IncomingMessage \<Rightarrow> ProxyRes \<Rightarrow> ResponseDetails \<times> 't \<Rightarrow> ResponseDetails \<times> 't" where
  "hook p t = (case p of FirstByte \<Rightarrow> onFirstByteReceived t | End \<Rightarrow> onEnd t | Close \<Rightarrow> onClose t)"

definition call_hook :: "lifecycle \<Rightarrow> 't Tracer \<Rightarrow> nat \<Rightarrow>
    IncomingMessage \<Rightarrow> ProxyRes \<Rightarrow> 't exchange \<Rightarrow> 't exchange" where
  "call_hook p t i req proxyRes x =
     (let x1 = say (HookStart p i) x;
          r = hook p t req proxyRes (details x1, tstate x1)
      in say (HookReturn p i) (x1\<lparr>details := fst r, tstate := snd r\<rparr>))"

text \<open>\<open>tracer.forEach((t) => t.hook(req, proxyRes, responseDetails))\<close>, from index \<open>i\<close> on.\<close>

fun forEach_tracer :: "lifecycle \<Rightarrow> 't Tracer list \<Rightarrow> nat \<Rightarrow>
    IncomingMessage \<Rightarrow> ProxyRes \<Rightarrow> 't exchange \<Rightarrow> 't exchange" where
  "forEach_tracer p [] i req proxyRes x = x"
| "forEach_tracer p (t # ts) i req proxyRes x =
     forEach_tracer p ts (Suc i) req proxyRes (call_hook p t i req proxyRes x)"

definition invoke :: "lifecycle \<Rightarrow> 't tracers \<Rightarrow>
    IncomingMessage \<Rightarrow> ProxyRes \<Rightarrow> 't exchange \<Rightarrow> 't exchange" where
  "invoke p tracer req proxyRes x =
     (case tracer of
        Many ts \<Rightarrow> forEach_tracer p ts 0 req proxyRes x
      | Single t \<Rightarrow> call_hook p t 0 req proxyRes x)"

text \<open>A number in a template literal: decimal digits; \<open>undefined\<close> is spelled out.\<close>

fun digits :: "nat \<Rightarrow> string" where
  "digits n = (if n < 10 then [''0123456789'' ! n]
               else digits (n div 10) @ [''0123456789'' ! (n mod 10)])"

declare digits.simps [simp del]

definition template :: "nat option \<Rightarrow> string" where
  "template v = (case v of None \<Rightarrow> ''undefined'' | Some n \<Rightarrow> digits n)"

text \<open>The \<open>proxyReq\<close> listener creates the details at the time \<open>performance.now()\<close> gives.\<close>

definition on_proxyReq :: "real \<Rightarrow> 't \<Rightarrow> 't exchange" where
  "on_proxyReq now s =
     \<lparr>details = \<lparr>statusCode = None, statusMessage = None,
                  timings = Some \<lparr>startTime = Some now, firstByteTime = None,
                                  endTime = None, closeTime = None\<rparr>\<rparr>,
      tstate = s, effects = [], response = None\<rparr>"

text \<open>The branch of the \<open>response\<close> listener on the upstream status, as calls on the sink.\<close>

definition relay :: "ProxyRes \<Rightarrow> effect list" where
  "relay proxyRes =
     (if 400 \<le> (case pr_statusCode proxyRes of None \<Rightarrow> 700 | Some c \<Rightarrow> c)
      then [SetHeader ''Content-Type'' ''text/plain'',
            ResEnd (Some (''Error Occurred: proxyRes.statusCode: '' @
                          template (pr_statusCode proxyRes)))]
      else [Pipe])"

definition on_response :: "'t tracers \<Rightarrow> IncomingMessage \<Rightarrow> ProxyRes \<Rightarrow> 't exchange \<Rightarrow> 't exchange" where
  "on_response tracer req proxyRes x =
     (let x1 = x\<lparr>details := (details x)\<lparr>statusCode := pr_statusCode proxyRes,
                                         statusMessage := pr_statusMessage proxyRes\<rparr>\<rparr>;
          x2 = invoke FirstByte tracer req proxyRes x1;
          x3 = say (SetHeader ''X-Proxy-Server'' ''true'') x2;
          x4 = fold say (relay proxyRes) x3
      in x4\<lparr>response := Some proxyRes\<rparr>)"

definition on_end :: "'t tracers \<Rightarrow> IncomingMessage \<Rightarrow> 't exchange \<Rightarrow> 't exchange" where
  "on_end tracer req x =
     (case response x of None \<Rightarrow> x | Some proxyRes \<Rightarrow> invoke End tracer req proxyRes x)"

definition on_close :: "'t tracers \<Rightarrow> IncomingMessage \<Rightarrow> 't exchange \<Rightarrow> 't exchange" where
  "on_close tracer req x =
     (case response x of None \<Rightarrow> x | Some proxyRes \<Rightarrow> invoke Close tracer req proxyRes x)"

subsection \<open>Transport errors\<close>

datatype sink = ServerResponse | Socket | OtherSink

definition on_error :: "string \<Rightarrow> sink \<Rightarrow> effect list" where
  "on_error err res =
     (case res of
        ServerResponse \<Rightarrow>
          [WriteHead 500 [(''Content-Type'', ''text/plain'')],
           ResEnd (Some ''Something went wrong. And we are reporting a custom error message.'')]
      | Socket \<Rightarrow> [ResEnd None]
      | OtherSink \<Rightarrow> [])"

text \<open>
  http-proxy hands a transport failure to the listeners of \<open>error\<close>, and throws it at
  its caller when nobody but itself listens.
\<close>

definition proxy_fails :: "ProxyServer \<Rightarrow> string \<Rightarrow> sink \<Rightarrow> error option \<times> effect list" where
  "proxy_fails ps err res =
     (if ''error'' \<in> set (proxy_listeners ps) then (None, on_error err res)
      else (Some (Error err), []))"

section \<open>The distributed tracer (tracer/ZipkinTracer.ts)\<close>

text \<open>
  A trace context of the zipkin library, and its constructor \<open>new TraceId(params)\<close>:
  the fields are the parameters, except that a context in debug mode is always sampled.
\<close>

record TraceId =
  traceId :: string
  spanId :: string
  parentId :: "string option"
  sampled :: "bool option"
  debug :: bool

definition new_TraceId :: "TraceId \<Rightarrow> TraceId" where
  "new_TraceId params = params\<lparr>sampled := (if debug params then Some True else sampled params)\<rparr>"

text \<open>A header in a condition: present and not the empty string.\<close>

definition present :: "string option \<Rightarrow> bool" where
  "present v = (case v of None \<Rightarrow> False | Some s \<Rightarrow> s \<noteq> [])"

text \<open>
  \<open>parseInt(s, 10)\<close>: leading white space is skipped, a sign is read, and the longest
  run of decimal digits is the value; \<open>None\<close> is \<open>NaN\<close>.
\<close>

definition StrWhiteSpaceChar :: "char list" where
  "StrWhiteSpaceChar = [CHR 0x09, CHR 0x0A, CHR 0x0B, CHR 0x0C, CHR 0x0D, CHR 0x20, CHR 0xA0]"

definition digit_value :: "char \<Rightarrow> nat option" where
  "digit_value c = map_of (zip ''0123456789'' [0, 1, 2, 3, 4, 5, 6, 7, 8, 9]) c"

definition parseInt :: "string \<Rightarrow> int option" where
  "parseInt s =
     (let t = dropWhile (\<lambda>c. c \<in> set StrWhiteSpaceChar) s;
          negative = (t \<noteq> [] \<and> hd t = CHR ''-'');
          u = (if t \<noteq> [] \<and> (hd t = CHR ''+'' \<or> hd t = CHR ''-'') then tl t else t);
          z = takeWhile (\<lambda>c. digit_value c \<noteq> None) u
      in if z = [] then None
         else Some ((if negative then - 1 else 1) *
                    int (foldl (\<lambda>a c. 10 * a + the (digit_value c)) 0 z)))"

text \<open>
  The tracer's field \<open>traceId\<close>; one tracer object is made for every request.
\<close>

record ZipkinTracerImpl =
  z_traceId :: "TraceId option"

text \<open>
  The module's one \<open>zipkinTracer\<close>, shared by all requests: the id it was last given
  through \<open>setId\<close>, and how many identifiers it has drawn.
\<close>

record zipkinTracer =
  z_current :: "TraceId option"
  drawn :: nat

text \<open>
  Modelled from the spec: \<open>zipkinTracer.createRootId()\<close> belongs to the zipkin library,
  which is not among the repository's files. The specification has it "create a new root
  context with fresh trace and span identifiers and no parent": the identifier of a root
  is one that no earlier root was given, written here as the number of identifiers drawn
  before it, and it serves as trace id and as span id. The library's default sampler
  samples every root.
\<close>

definition createRootId :: "zipkinTracer \<Rightarrow> TraceId \<times> zipkinTracer" where
  "createRootId z =
     (\<lparr>traceId = digits (drawn z), spanId = digits (drawn z), parentId = None,
       sampled = Some True, debug = False\<rparr>,
      z\<lparr>drawn := Suc (drawn z)\<rparr>)"

definition createOrContinueTrace ::
    "headers \<Rightarrow> ZipkinTracerImpl \<times> zipkinTracer \<Rightarrow> ZipkinTracerImpl \<times> zipkinTracer" where
  "createOrContinueTrace hs tz =
     (let traceIdHeader = hs ''x-b3-traceid'';
          spanIdHeader = hs ''x-b3-spanid'';
          parentIdHeader = hs ''x-b3-parentspanid'';
          sampledHeader = hs ''x-b3-sampled'';
          flagsHeader = hs ''x-b3-flags''
      in if present traceIdHeader \<and> present spanIdHeader
         then
           (let new = new_TraceId
                  \<lparr>traceId = the traceIdHeader,
                   spanId = the spanIdHeader,
                   parentId = (if present parentIdHeader then parentIdHeader else None),
                   sampled = (if present sampledHeader then Some (sampledHeader = Some ''1'') else None),
                   debug = (if present flagsHeader then parseInt (the flagsHeader) = Some 1 else False)\<rparr>
            in ((fst tz)\<lparr>z_traceId := Some new\<rparr>, (snd tz)\<lparr>z_current := Some new\<rparr>))
         else
           (let r = createRootId (snd tz)
            in ((fst tz)\<lparr>z_traceId := Some (fst r)\<rparr>, (snd r)\<lparr>z_current := Some (fst r)\<rparr>)))"

section \<open>Notions the properties are stated with\<close>

subsection \<open>Runs of the bridge\<close>

text \<open>A sequence of \<open>_write\<close> calls, in the order they are issued.\<close>

definition write_all :: "(chunk \<times> BufferEncoding \<times> callback) list \<Rightarrow> world \<Rightarrow> world" where
  "write_all ws w = fold (\<lambda>a. Streamify_write (fst a) (fst (snd a)) (snd (snd a))) ws w"

text \<open>
  The number a function object was created with, and the streams on which every
  registered listener was created before now.
\<close>

fun listener_id :: "listener \<Rightarrow> nat" where
  "listener_id (Relay i ev) = i"
| "listener_id (OnEnd i) = i"
| "listener_id (OnReadable i sz) = i"

definition closures_fresh :: "ref \<Rightarrow> world \<Rightarrow> bool" where
  "closures_fresh r w = list_all (\<lambda>h. listener_id (fst (snd h)) < fresh w) (handlers (heap w r))"

text \<open>The registrations a successful \<open>addSource\<close> appends to the stream's listeners.\<close>

definition attached_tail :: "ref \<Rightarrow> world \<Rightarrow> (string \<times> listener \<times> bool) list" where
  "attached_tail r w =
     [(''error'', Relay (Suc (fresh w)) ''error'', False),
      (''close'', Relay (Suc (Suc (fresh w))) ''close'', False),
      (''end'', OnEnd (fresh w), False)] @
     (if truthy (fst (stream_read r (sourceRead (bridge w)) w)) then []
      else [(''readable'', OnReadable (Suc (Suc (Suc (fresh w)))) (sourceRead (bridge w)), True)])"

text \<open>How many end-of-stream marks the readable side of the bridge holds.\<close>

definition eof_count :: "world \<Rightarrow> nat" where
  "eof_count w = count_list (pushed (bridge w)) None"

text \<open>
  What can happen to a bridge: a call of one of its methods (a throw leaves the state it
  was thrown in), an event of a stream, the bridge's own \<open>finish\<close>.
\<close>

datatype bridge_op =
    Read "nat option"
  | Write chunk BufferEncoding callback
  | AddSource ref
  | RemoveSource
  | AddDest ref
  | RemoveDest
  | Emit ref string
  | Finish

fun step :: "bridge_op \<Rightarrow> world \<Rightarrow> world" where
  "step (Read sz) w = Streamify_read sz w"
| "step (Write c e cb) w = Streamify_write c e cb w"
| "step (AddSource r) w = snd (addSource r w)"
| "step RemoveSource w = snd (removeSource w)"
| "step (AddDest r) w = snd (addDest r w)"
| "step RemoveDest w = snd (removeDest w)"
| "step (Emit r ev) w = stream_emit r ev w"
| "step Finish w = on_finish w"

text \<open>
  The bridge can be detached from its source: the three listeners \<open>removeSource\<close> looks
  up are function objects.
\<close>

definition detachable :: "world \<Rightarrow> bool" where
  "detachable w =
     (case source (bridge w) of
        None \<Rightarrow> True
      | Some src \<Rightarrow> onreadable src \<noteq> None \<and> s_listeners src ''error'' \<noteq> None \<and>
                    s_listeners src ''close'' \<noteq> None)"

subsection \<open>Payload shapes, options, hook calls\<close>

text \<open>
  The shapes the specification accepts for a payload, in its words: absent, text, a live
  stream, a byte buffer, a plain object.
\<close>

definition accepted_shape :: "jsvalue \<Rightarrow> bool" where
  "accepted_shape v =
     (case v of
        Undefined \<Rightarrow> True
      | String s \<Rightarrow> True
      | ReadableStream r \<Rightarrow> True
      | Buffer b \<Rightarrow> True
      | Object kvs \<Rightarrow> True
      | _ \<Rightarrow> False)"


text \<open>
  The calls and returns of \<open>n\<close> hooks from index \<open>i\<close> on, one hook after the other,
  and the tracers of a \<open>Tracer | Tracer[]\<close> in registration order.
\<close>

definition hook_events :: "lifecycle \<Rightarrow> nat \<Rightarrow> nat \<Rightarrow> effect list" where
  "hook_events p i n = concat (map (\<lambda>k. [HookStart p k, HookReturn p k]) [i ..< i + n])"

definition hooks_of :: "'t tracers \<Rightarrow> 't Tracer list" where
  "hooks_of tracer = (case tracer of Single t \<Rightarrow> [t] | Many ts \<Rightarrow> ts)"

subsection \<open>Examples\<close>

text \<open>
  An instance of the runtime for the examples. \<open>JSON.stringify\<close> on values built from
  \<open>null\<close>, booleans, integers, strings without a character that JSON escapes, arrays
  and plain objects: a member that is \<open>undefined\<close>, a symbol or a function is left out
  of an object and is \<open>null\<close> in an array, a bigint throws. \<open>toString\<close> on a buffer
  that holds the bytes of a text.
\<close>

definition intersperse :: "string \<Rightarrow> string list \<Rightarrow> string" where
  "intersperse sep xs = (case xs of [] \<Rightarrow> [] | x # ys \<Rightarrow> x @ concat (map (\<lambda>y. sep @ y) ys))"

fun left_out :: "jsvalue \<Rightarrow> bool" where
  "left_out Undefined = True"
| "left_out (Symbol s) = True"
| "left_out (Function f) = True"
| "left_out v = False"

fun json :: "jsvalue \<Rightarrow> error + string"
  and json_members :: "(string \<times> jsvalue) list \<Rightarrow> error + string list"
  and json_elements :: "jsvalue list \<Rightarrow> error + string list" where
  "json Null = Inr ''null''"
| "json (Boolean b) = Inr (if b then ''true'' else ''false'')"
| "json (Number n) = Inr (if n < 0 then ''-'' @ digits (nat (- n)) else digits (nat n))"
| "json (String s) = Inr ([CHR 0x22] @ s @ [CHR 0x22])"
| "json (BigInt n) = Inl (TypeError ''Do not know how to serialize a BigInt'')"
| "json (Object kvs) =
     (case json_members kvs of
        Inl e \<Rightarrow> Inl e
      | Inr ms \<Rightarrow> Inr (''{'' @ intersperse '','' ms @ ''}''))"
| "json (Array vs) =
     (case json_elements vs of
        Inl e \<Rightarrow> Inl e
      | Inr es \<Rightarrow> Inr (''['' @ intersperse '','' es @ '']''))"
| "json v = Inr ''null''"
| "json_members [] = Inr []"
| "json_members (kv # kvs) =
     (if left_out (snd kv) then json_members kvs
      else (case json (snd kv) of
              Inl e \<Rightarrow> Inl e
            | Inr t \<Rightarrow>
                (case json_members kvs of
                   Inl e \<Rightarrow> Inl e
                 | Inr ms \<Rightarrow> Inr (([CHR 0x22] @ fst kv @ [CHR 0x22] @ '':'' @ t) # ms))))"
| "json_elements [] = Inr []"
| "json_elements (v # vs) =
     (case json v of
        Inl e \<Rightarrow> Inl e
      | Inr t \<Rightarrow> (case json_elements vs of Inl e \<Rightarrow> Inl e | Inr es \<Rightarrow> Inr (t # es)))"

definition example_runtime :: runtime where
  "example_runtime = \<lparr>JSON_stringify = json, Buffer_toString = (\<lambda>b. b)\<rparr>"

definition example_request :: "string \<Rightarrow> jsvalue \<Rightarrow> Request" where
  "example_request m p = \<lparr>r_method = m, r_headers = Map.empty, r_pathname = ''/foo'', r_payload = p\<rparr>"

text \<open>A tracer object just made, and the shared tracer before it has drawn an identifier.\<close>

definition no_tracer :: ZipkinTracerImpl where
  "no_tracer = \<lparr>z_traceId = None\<rparr>"

definition zipkin0 :: zipkinTracer where
  "zipkin0 = \<lparr>z_current = None, drawn = 0\<rparr>"

text \<open>
  A tracer whose every hook appends the lifecycle point and the tracer's number to the
  tracers' state, and a request.
\<close>

definition example_tracer :: "nat \<Rightarrow> (lifecycle \<times> nat) list Tracer" where
  "example_tracer k =
     \<lparr>onFirstByteReceived = (\<lambda>req res ds. (fst ds, snd ds @ [(FirstByte, k)])),
      onEnd = (\<lambda>req res ds. (fst ds, snd ds @ [(End, k)])),
      onClose = (\<lambda>req res ds. (fst ds, snd ds @ [(Close, k)]))\<rparr>"

definition example_req :: IncomingMessage where
  "example_req = \<lparr>url = ''/foo'', im_headers = Map.empty\<rparr>"

section \<open>Properties of the stream bridge\<close>

subsection \<open>Frame lemmas\<close>

lemma bridge_upd_stream [simp]: "bridge (upd_stream r f w) = bridge w"
  and heap_upd_stream [simp]: "heap (upd_stream r f w) = (heap w)(r := f (heap w r))"
  and fresh_upd_stream [simp]: "fresh (upd_stream r f w) = fresh w"
  by (simp_all add: upd_stream_def)

lemma bridge_upd_bridge [simp]: "bridge (upd_bridge f w) = f (bridge w)"
  and heap_upd_bridge [simp]: "heap (upd_bridge f w) = heap w"
  and fresh_upd_bridge [simp]: "fresh (upd_bridge f w) = fresh w"
  by (simp_all add: upd_bridge_def)

lemma source_push [simp]: "source (push c b) = source b"
  and dest_push [simp]: "dest (push c b) = dest b"
  and destWritten_push [simp]: "destWritten (push c b) = destWritten b"
  by (simp_all add: push_def split: option.splits)

lemma bridge_stream_read [simp]: "bridge (snd (stream_read r sz w)) = bridge w"
  by (simp add: stream_read_def split: list.splits)

lemma source_onreadable_call [simp]:
  "source (bridge (onreadable_call i sz w)) = source (bridge w)"
  by (simp add: onreadable_call_def stream_once_def split: option.splits prod.splits)
     (metis bridge_stream_read snd_conv)

lemma relay_source_fields [simp]:
  "bridge (relay_source r ev w) =
     (bridge w)\<lparr>source := map_option
        (\<lambda>src. src\<lparr>s_listeners := (s_listeners src)(ev \<mapsto> Relay (fresh w) ev)\<rparr>)
        (source (bridge w))\<rparr>"
  "heap (relay_source r ev w) =
     (heap w)(r := (heap w r)\<lparr>handlers := handlers (heap w r) @ [(ev, Relay (fresh w) ev, False)]\<rparr>)"
  "fresh (relay_source r ev w) = Suc (fresh w)"
  by (simp_all add: relay_source_def Let_def stream_on_def)

lemma relay_dest_fields [simp]:
  "bridge (relay_dest r ev w) =
     (bridge w)\<lparr>dest := map_option
        (\<lambda>d. d\<lparr>d_listeners := (d_listeners d)(ev \<mapsto> Relay (fresh w) ev)\<rparr>)
        (dest (bridge w))\<rparr>"
  "heap (relay_dest r ev w) =
     (heap w)(r := (heap w r)\<lparr>handlers := handlers (heap w r) @ [(ev, Relay (fresh w) ev, False)]\<rparr>)"
  "fresh (relay_dest r ev w) = Suc (fresh w)"
  by (simp_all add: relay_dest_def Let_def stream_on_def)

lemma source_Streamify_read:
  "source (bridge w) = Some src \<Longrightarrow> \<exists>y. source (bridge (Streamify_read sz w)) = Some y"
  by (simp add: Streamify_read_def Let_def)

lemma addSource_attaches:
  assumes "fst (addSource r w) = None"
  shows "source (bridge (snd (addSource r w))) \<noteq> None"
proof -
  from assms have n: "source (bridge w) = None"
    by (simp add: addSource_def split: if_splits)
  show ?thesis
    unfolding addSource_def Let_def SOURCE_EVENTS_def using n
    by (simp add: stream_on_def source_Streamify_read)
qed

lemma bridge_fold_stream_write [simp]: "bridge (fold (stream_write r) xs w) = bridge w"
  by (induction xs arbitrary: w) (simp_all add: stream_write_def)

lemma addDest_attaches:
  assumes "fst (addDest r w) = None"
  shows "dest (bridge (snd (addDest r w))) \<noteq> None"
proof -
  from assms have n: "dest (bridge w) = None"
    by (simp add: addDest_def split: if_splits)
  show ?thesis
    unfolding addDest_def Let_def DEST_EVENTS_def using n
    by simp
qed

subsection \<open>Attach and detach\<close>

text \<open>
  Claim C8. \<open>addSource\<close> on a bridge that has a source throws the error "A source stream
  has already been added." (the spec's AlreadyAttached), so a second attach after a
  successful one fails; \<open>removeSource\<close> on a bridge without a source throws "A source
  stream has not been added." (NotAttached); \<open>addDest\<close> and \<open>removeDest\<close> do the same
  for the destination. Each of these throws leaves the bridge, the streams and the
  closure counter exactly as they were.
\<close>

theorem attach_detach_errors:
  "(source (bridge w) \<noteq> None \<longrightarrow>
      addSource r w = (Some (Error ''A source stream has already been added.''), w)) \<and>
   (fst (addSource r w) = None \<longrightarrow>
      addSource r' (snd (addSource r w)) =
        (Some (Error ''A source stream has already been added.''), snd (addSource r w))) \<and>
   (source (bridge w) = None \<longrightarrow>
      removeSource w = (Some (Error ''A source stream has not been added.''), w)) \<and>
   (dest (bridge w) \<noteq> None \<longrightarrow>
      addDest r w = (Some (Error ''A destination stream has already been added.''), w)) \<and>
   (fst (addDest r w) = None \<longrightarrow>
      addDest r' (snd (addDest r w)) =
        (Some (Error ''A destination stream has already been added.''), snd (addDest r w))) \<and>
   (dest (bridge w) = None \<longrightarrow>
      removeDest w = (Some (Error ''A destination stream has not been added.''), w))"
proof -
  have a: "source (bridge v) \<noteq> None \<Longrightarrow>
      addSource q v = (Some (Error ''A source stream has already been added.''), v)" for q v
    by (simp add: addSource_def)
  have d: "dest (bridge v) \<noteq> None \<Longrightarrow>
      addDest q v = (Some (Error ''A destination stream has already been added.''), v)" for q v
    by (simp add: addDest_def)
  show ?thesis
    using a [of w r] a [OF addSource_attaches, of r w r'] d [of w r] d [OF addDest_attaches, of r w r']
    by (simp add: removeSource_def removeDest_def)
qed

theorem attach_detach_errors_witness:
  "fst (addSource 1 world0) = None \<and>
   addSource 2 (snd (addSource 1 world0)) =
     (Some (Error ''A source stream has already been added.''), snd (addSource 1 world0)) \<and>
   removeSource world0 = (Some (Error ''A source stream has not been added.''), world0) \<and>
   fst (addDest 3 world0) = None \<and>
   addDest 4 (snd (addDest 3 world0)) =
     (Some (Error ''A destination stream has already been added.''), snd (addDest 3 world0)) \<and>
   removeDest world0 = (Some (Error ''A destination stream has not been added.''), world0)"
proof -
  have s: "source (bridge world0) = None" and d: "dest (bridge world0) = None"
    by (simp_all add: world0_def streamify_def)
  have as: "fst (addSource 1 world0) = None" using s by (simp add: addSource_def Let_def)
  have ad: "fst (addDest 3 world0) = None" using d by (simp add: addDest_def Let_def)
  show ?thesis
    using attach_detach_errors [of world0 1 2] attach_detach_errors [of world0 3 4] s d as ad
    by simp
qed

subsection \<open>Queued writes\<close>

lemma write_all_unattached:
  "dest (bridge w) = None \<Longrightarrow>
   write_all ws w = upd_bridge (\<lambda>b. b\<lparr>destWritten := destWritten b @ ws\<rparr>) w"
proof (induction ws arbitrary: w)
  case Nil
  then show ?case by (simp add: write_all_def upd_bridge_def)
next
  case (Cons a ws)
  have "write_all (a # ws) w = write_all ws (Streamify_write (fst a) (fst (snd a)) (snd (snd a)) w)"
    by (simp add: write_all_def)
  also have "Streamify_write (fst a) (fst (snd a)) (snd (snd a)) w =
      upd_bridge (\<lambda>b. b\<lparr>destWritten := destWritten b @ [a]\<rparr>) w"
    using Cons.prems by (simp add: Streamify_write_def)
  also have "write_all ws \<dots> = upd_bridge (\<lambda>b. b\<lparr>destWritten := destWritten b @ ws\<rparr>) \<dots>"
    using Cons.prems by (intro Cons.IH) simp
  finally show ?case by (simp add: upd_bridge_def)
qed

lemma heap_fold_stream_write:
  "heap (fold (stream_write r) xs w) =
     (heap w)(r := (heap w r)\<lparr>writes := writes (heap w r) @ xs\<rparr>)"
  by (induction xs arbitrary: w) (simp_all add: stream_write_def fun_eq_iff)

text \<open>
  Claim C1. On a bridge without a destination, any sequence of \<open>_write\<close> calls is
  queued; \<open>addDest\<close> then succeeds, hands the writes that were queued to the stream's
  \<open>write\<close> in the order they were issued, each once and with its own callback, writes
  to no other stream and leaves the queue empty. A \<open>_write\<close> on a bridge with a
  destination goes to that stream's \<open>write\<close> at once, with its callback, and queues
  nothing. The bridge calls no completion callback itself: each is called by the
  destination that received the write, once for every entry of \<open>writes\<close>.
\<close>

theorem queued_writes_replayed:
  "(dest (bridge w) = None \<longrightarrow>
      fst (addDest r (write_all ws w)) = None \<and>
      writes (heap (snd (addDest r (write_all ws w))) r) =
        writes (heap w r) @ destWritten (bridge w) @ ws \<and>
      (\<forall>r'. r' \<noteq> r \<longrightarrow> writes (heap (snd (addDest r (write_all ws w))) r') = writes (heap w r')) \<and>
      destWritten (bridge (snd (addDest r (write_all ws w)))) = [] \<and>
      map_option d_stream (dest (bridge (snd (addDest r (write_all ws w))))) = Some r) \<and>
   (dest (bridge w) = Some d \<longrightarrow>
      writes (heap (Streamify_write c e cb w) (d_stream d)) =
        writes (heap w (d_stream d)) @ [(c, e, cb)] \<and>
      (\<forall>r'. r' \<noteq> d_stream d \<longrightarrow> writes (heap (Streamify_write c e cb w) r') = writes (heap w r')) \<and>
      destWritten (bridge (Streamify_write c e cb w)) = destWritten (bridge w))"
proof (intro conjI impI)
  assume n: "dest (bridge w) = None"
  let ?w1 = "write_all ws w"
  have w1: "?w1 = upd_bridge (\<lambda>b. b\<lparr>destWritten := destWritten b @ ws\<rparr>) w"
    using n by (rule write_all_unattached)
  have n1: "dest (bridge ?w1) = None" using n by (simp add: w1)
  show "fst (addDest r ?w1) = None" using n1 by (simp add: addDest_def Let_def)
  show "writes (heap (snd (addDest r ?w1)) r) = writes (heap w r) @ destWritten (bridge w) @ ws"
    using n1 by (simp add: addDest_def Let_def DEST_EVENTS_def heap_fold_stream_write w1)
  show "\<forall>r'. r' \<noteq> r \<longrightarrow> writes (heap (snd (addDest r ?w1)) r') = writes (heap w r')"
    using n1 by (simp add: addDest_def Let_def DEST_EVENTS_def heap_fold_stream_write w1)
  show "destWritten (bridge (snd (addDest r ?w1))) = []"
    using n1 by (simp add: addDest_def Let_def DEST_EVENTS_def w1)
  show "map_option d_stream (dest (bridge (snd (addDest r ?w1)))) = Some r"
    using n1 by (simp add: addDest_def Let_def DEST_EVENTS_def w1)
next
  assume s: "dest (bridge w) = Some d"
  show "writes (heap (Streamify_write c e cb w) (d_stream d)) = writes (heap w (d_stream d)) @ [(c, e, cb)]"
    using s by (simp add: Streamify_write_def stream_write_def)
  show "\<forall>r'. r' \<noteq> d_stream d \<longrightarrow> writes (heap (Streamify_write c e cb w) r') = writes (heap w r')"
    using s by (simp add: Streamify_write_def stream_write_def)
  show "destWritten (bridge (Streamify_write c e cb w)) = destWritten (bridge w)"
    using s by (simp add: Streamify_write_def stream_write_def)
qed

theorem queued_writes_replayed_witness:
  "writes (heap (snd (addDest 7 (write_all [(''a'', ''utf8'', 1), (''b'', ''utf8'', 2)] world0))) 7) =
     [(''a'', ''utf8'', 1), (''b'', ''utf8'', 2)] \<and>
   destWritten (bridge (snd (addDest 7 (write_all [(''a'', ''utf8'', 1), (''b'', ''utf8'', 2)] world0)))) = [] \<and>
   writes (heap (Streamify_write ''c'' ''utf8'' 3
       (snd (addDest 7 (write_all [(''a'', ''utf8'', 1), (''b'', ''utf8'', 2)] world0)))) 7) =
     [(''a'', ''utf8'', 1), (''b'', ''utf8'', 2), (''c'', ''utf8'', 3)]"
proof -
  let ?ws = "[(''a'', ''utf8'', 1), (''b'', ''utf8'', 2)] :: (chunk \<times> BufferEncoding \<times> callback) list"
  let ?w = "snd (addDest 7 (write_all ?ws world0))"
  have n: "dest (bridge world0) = None" "destWritten (bridge world0) = []"
    "writes (heap world0 7) = []"
    by (simp_all add: world0_def streamify_def new_stream_def)
  from queued_writes_replayed [of world0 7 ?ws] n
  have a: "writes (heap ?w 7) = ?ws" "destWritten (bridge ?w) = []"
    "map_option d_stream (dest (bridge ?w)) = Some 7"
    by simp_all
  then obtain d where d: "dest (bridge ?w) = Some d" "d_stream d = 7" by auto
  from queued_writes_replayed [of ?w 7 "[]" d "''c''" "''utf8''" 3] d a
  show ?thesis by simp
qed

subsection \<open>Detaching the source\<close>

lemma remove_first_append:
  "remove_first P (xs @ ys) =
     (if list_ex P xs then remove_first P xs @ ys else xs @ remove_first P ys)"
  by (induction xs) simp_all

lemma remove_first_none: "\<not> list_ex P xs \<Longrightarrow> remove_first P xs = xs"
  by (induction xs) simp_all

lemma remove_last_append:
  "rev (remove_first P (rev (xs @ ys))) =
     (if list_ex P ys then xs @ rev (remove_first P (rev ys))
      else rev (remove_first P (rev xs)) @ ys)"
  by (simp add: remove_first_append list_ex_iff)

lemma remove_last_none: "\<not> list_ex P xs \<Longrightarrow> rev (remove_first P (rev xs)) = xs"
  by (simp add: remove_first_none list_ex_iff)

lemma fresh_not_registered:
  "closures_fresh r w \<Longrightarrow> fresh w \<le> listener_id l \<Longrightarrow>
   \<not> list_ex (registered ev l) (handlers (heap w r))"
  by (auto simp: closures_fresh_def list_all_iff list_ex_iff registered_def)

lemma addSource_source:
  assumes "source (bridge w) = None"
  shows "source (bridge (snd (addSource r w))) =
     Some \<lparr>s_stream = r,
           s_listeners = [''error'' \<mapsto> Relay (Suc (fresh w)) ''error'',
                          ''close'' \<mapsto> Relay (Suc (Suc (fresh w))) ''close''],
           onend = OnEnd (fresh w),
           onreadable = Some (OnReadable (Suc (Suc (Suc (fresh w)))) (sourceRead (bridge w)))\<rparr>"
  using assms
  by (simp add: addSource_def Let_def SOURCE_EVENTS_def stream_on_def Streamify_read_def)

lemma addSource_handlers:
  assumes "source (bridge w) = None"
  shows "handlers (heap (snd (addSource r w)) q) =
     (if q = r then handlers (heap w r) @ attached_tail r w else handlers (heap w q))"
  using assms
  by (simp add: addSource_def Let_def SOURCE_EVENTS_def stream_on_def Streamify_read_def
       onreadable_call_def stream_read_def stream_once_def attached_tail_def
       split: list.splits)

lemma and_then_ok [simp]: "f w = (None, w') \<Longrightarrow> and_then f g w = g w'"
  by (simp add: and_then_def)

lemma stream_removeListener_Some [simp]:
  "stream_removeListener r ev (Some l) w =
     (None, upd_stream r
        (\<lambda>s. s\<lparr>handlers := rev (remove_first (registered ev l) (rev (handlers s)))\<rparr>) w)"
  by (simp add: stream_removeListener_def)

lemma source_run_listener [simp]: "source (bridge (run_listener l w)) = source (bridge w)"
  by (cases l) (simp_all add: emit_def)

lemma source_fold_run_listener [simp]:
  "source (bridge (fold run_listener ls w)) = source (bridge w)"
  by (induction ls arbitrary: w) (simp_all del: run_listener.simps)

lemma source_stream_emit [simp]: "source (bridge (stream_emit r ev w)) = source (bridge w)"
  by (simp add: stream_emit_def Let_def)

lemma source_Streamify_write [simp]:
  "source (bridge (Streamify_write c e cb w)) = source (bridge w)"
  by (simp add: Streamify_write_def stream_write_def split: option.splits)

lemma source_on_finish [simp]: "source (bridge (on_finish w)) = source (bridge w)"
  by (simp add: on_finish_def Let_def stream_end_def split: option.splits)

lemma source_addDest [simp]: "source (bridge (snd (addDest r w))) = source (bridge w)"
  by (simp add: addDest_def Let_def DEST_EVENTS_def)

lemma bridge_forEach_removeListener:
  "source (bridge (snd (forEach (\<lambda>ev. stream_removeListener r ev (m ev)) evs w))) = source (bridge w)"
  by (induction evs arbitrary: w)
     (simp_all add: and_then_def stream_removeListener_def split: option.splits prod.splits)

lemma source_removeDest [simp]: "source (bridge (snd (removeDest w))) = source (bridge w)"
proof (cases "dest (bridge w)")
  case None
  then show ?thesis by (simp add: removeDest_def)
next
  case (Some d)
  obtain e w' where f: "forEach (\<lambda>ev. stream_removeListener (d_stream d) ev (d_listeners d ev)) DEST_EVENTS w = (e, w')"
    by force
  then have "source (bridge w') = source (bridge w)"
    using bridge_forEach_removeListener [of "d_stream d" "d_listeners d" DEST_EVENTS w] by simp
  then show ?thesis using Some f
    by (cases e) (simp_all add: removeDest_def and_then_def)
qed

lemma detachable_Streamify_read: "detachable w \<Longrightarrow> detachable (Streamify_read sz w)"
  by (auto simp: detachable_def Streamify_read_def Let_def split: option.splits)

lemma detachable_addSource: "detachable w \<Longrightarrow> detachable (snd (addSource r w))"
proof (cases "source (bridge w)")
  case None
  assume "detachable w"
  show ?thesis using addSource_source [OF None, of r] by (simp add: detachable_def)
next
  case (Some src)
  assume "detachable w"
  then show ?thesis using Some by (simp add: addSource_def)
qed

lemma removeSource_returns:
  assumes "detachable w"
  shows "fst (removeSource w) \<noteq> Some (TypeError ''The listener argument must be of type function'')"
    and "detachable (snd (removeSource w))"
proof -
  show "fst (removeSource w) \<noteq> Some (TypeError ''The listener argument must be of type function'')"
    using assms
    by (auto simp: detachable_def removeSource_def SOURCE_EVENTS_def split: option.splits)
  show "detachable (snd (removeSource w))"
    using assms
    by (auto simp: detachable_def removeSource_def SOURCE_EVENTS_def split: option.splits)
qed

lemma detachable_step: "detachable w \<Longrightarrow> detachable (step a w)"
  by (cases a)
     (simp_all add: detachable_Streamify_read detachable_addSource removeSource_returns(2),
      simp_all add: detachable_def)

lemma detachable_world0: "detachable world0"
  by (simp add: detachable_def world0_def streamify_def)

lemma detachable_reachable: "detachable (fold step ops world0)"
proof -
  have "detachable w \<Longrightarrow> detachable (fold step ops w)" for w
    by (induction ops arbitrary: w) (simp_all add: detachable_step del: step.simps)
  then show ?thesis using detachable_world0 .
qed

lemma removeSource_never_type_error:
  "fst (removeSource (fold step ops world0)) \<noteq>
     Some (TypeError ''The listener argument must be of type function'')"
  using detachable_reachable by (rule removeSource_returns(1))

text \<open>
  Were the field \<open>onreadable\<close> of an attached source unset, \<open>removeSource\<close> would
  throw out of \<open>removeListener\<close>.
\<close>

lemma removeSource_undefined_listener:
  assumes "source (bridge w) = Some src" and "s_listeners src ''error'' = Some l1"
    and "s_listeners src ''close'' = Some l2" and "onreadable src = None"
  shows "fst (removeSource w) = Some (TypeError ''The listener argument must be of type function'')"
  using assms
  by (simp add: removeSource_def SOURCE_EVENTS_def and_then_def stream_removeListener_def)

text \<open>
  A read by the consumer while the source is attached replaces \<open>onreadable\<close> by a new
  closure and registers it once more. \<open>removeSource\<close> unregisters the closure the field
  holds at that moment only: the closure of the \<open>_read\<close> in \<open>addSource\<close>, still
  waiting for its \<open>readable\<close>, stays on the stream.
\<close>

lemma read_while_attached_leaves_listener:
  "fst (removeSource (Streamify_read (Some 16) (snd (addSource 7 world0)))) = None \<and>
   handlers (heap (snd (removeSource (Streamify_read (Some 16) (snd (addSource 7 world0))))) 7) =
     [(''readable'', OnReadable 3 None, True)]"
  by code_simp

text \<open>
  Claim C10, amended. \<open>addSource\<close> itself calls \<open>_read\<close>, and \<open>_read\<close> on a bridge
  with a source sets \<open>onreadable\<close>. So right after a successful \<open>addSource\<close>, the
  consumer having read nothing, the field holds the closure that \<open>_read\<close> created; a
  \<open>removeSource\<close> that follows the \<open>addSource\<close> directly, with no read and no event
  in between, returns without an error, leaves no source, and (on a stream whose
  earlier listeners are older function objects) leaves every stream with the listeners
  it had before the attach. In every state a new bridge can reach by reads, writes, attaches,
  detaches and events of the stream, \<open>removeSource\<close> finds the listeners it looks up
  defined and throws no \<open>TypeError\<close>; what it leaves on the stream after reads in
  between is not part of the statement.
\<close>

theorem detach_after_attach:
  assumes ok: "fst (addSource r w) = None" and fr: "closures_fresh r w"
  shows "map_option onreadable (source (bridge (snd (addSource r w)))) =
           Some (Some (OnReadable (Suc (Suc (Suc (fresh w)))) (sourceRead (bridge w)))) \<and>
         fst (removeSource (snd (addSource r w))) = None \<and>
         source (bridge (snd (removeSource (snd (addSource r w))))) = None \<and>
         handlers (heap (snd (removeSource (snd (addSource r w)))) q) = handlers (heap w q) \<and>
         detachable (fold step ops world0) \<and>
         fst (removeSource (fold step ops world0)) \<noteq>
           Some (TypeError ''The listener argument must be of type function'')"
proof -
  from ok have n: "source (bridge w) = None"
    by (simp add: addSource_def split: if_splits)
  let ?w = "snd (addSource r w)"
  note src = addSource_source [OF n, of r]
  note hs = addSource_handlers [OF n, of r]
  have nf: "\<not> list_ex (registered ev (OnReadable (Suc (Suc (Suc (fresh w)))) sz)) (handlers (heap w r))"
    for ev sz
    using fr by (rule fresh_not_registered) simp
  have rs: "removeSource ?w =
      (None, upd_bridge (\<lambda>b. b\<lparr>source := None\<rparr>)
         (upd_stream r (\<lambda>s. s\<lparr>handlers := handlers (heap w r)\<rparr>) ?w))"
    by (simp add: removeSource_def src SOURCE_EVENTS_def hs attached_tail_def
          remove_last_append remove_last_none nf registered_def upd_stream_def)
  show ?thesis
    using detachable_reachable [of ops] removeSource_never_type_error [of ops]
    by (simp add: rs src hs)
qed

theorem detach_after_attach_witness:
  "fst (addSource 7 world0) = None \<and> closures_fresh 7 world0 \<and>
   fst (removeSource (snd (addSource 7 world0))) = None \<and>
   source (bridge (snd (removeSource (snd (addSource 7 world0))))) = None \<and>
   handlers (heap (snd (removeSource (snd (addSource 7 world0)))) 7) = handlers (heap world0 7) \<and>
   detachable (fold step [Read (Some 16), AddSource 7, Emit 7 ''readable'', RemoveSource] world0)"
proof -
  have n: "source (bridge world0) = None" by (simp add: world0_def streamify_def)
  have ok: "fst (addSource 7 world0) = None" using n by (simp add: addSource_def Let_def)
  have fr: "closures_fresh 7 world0"
    by (simp add: closures_fresh_def world0_def new_stream_def)
  from detach_after_attach
         [OF ok fr, of 7 "[Read (Some 16), AddSource 7, Emit 7 ''readable'', RemoveSource]"] ok fr
  show ?thesis by simp
qed

text \<open>
  Claim C10 as stated fails: on a new bridge, whose consumer has never read, attaching
  the stream at address 7 and detaching it passes the defined listener \<open>OnReadable 3\<close>
  to \<open>removeListener\<close>, throws nothing and leaves the stream without listeners.
\<close>

theorem plain_attach_then_detach:
  "map_option onreadable (source (bridge (snd (addSource 7 world0)))) =
     Some (Some (OnReadable 3 None)) \<and>
   fst (removeSource (snd (addSource 7 world0))) = None \<and>
   handlers (heap (snd (removeSource (snd (addSource 7 world0)))) 7) = []"
proof -
  have n: "source (bridge world0) = None" by (simp add: world0_def streamify_def)
  have f: "fresh world0 = 0" "sourceRead (bridge world0) = None" "handlers (heap world0 r) = []"
    "reads (heap world0 r) = []" for r
    by (simp_all add: world0_def streamify_def new_stream_def)
  have s: "source (bridge (snd (addSource 7 world0))) =
     Some \<lparr>s_stream = 7,
           s_listeners = [''error'' \<mapsto> Relay 1 ''error'', ''close'' \<mapsto> Relay 2 ''close''],
           onend = OnEnd 0, onreadable = Some (OnReadable 3 None)\<rparr>"
    using addSource_source [OF n, of 7] by (simp add: f eval_nat_numeral)
  have h: "handlers (heap (snd (addSource 7 world0)) 7) =
      [(''error'', Relay 1 ''error'', False), (''close'', Relay 2 ''close'', False),
       (''end'', OnEnd 0, False), (''readable'', OnReadable 3 None, True)]"
    using addSource_handlers [OF n, of 7 7]
    by (simp add: f attached_tail_def stream_read_def eval_nat_numeral)
  show ?thesis
    by (simp add: s removeSource_def SOURCE_EVENTS_def h registered_def)
qed

subsection \<open>The end of the source\<close>

lemma pushed_push:
  "pushed (push c b) = (if None \<in> set (pushed b) then pushed b else pushed b @ [c])"
  by (simp add: push_def split: option.splits)

lemma count_list_0_iff: "count_list xs x = 0 \<longleftrightarrow> x \<notin> set xs"
  by (induction xs) auto

lemma eof_push:
  "eof_count (upd_bridge (push c) w) =
     (if eof_count w = 0 \<and> c = None then 1 else eof_count w)"
  by (auto simp: eof_count_def pushed_push count_list_0_iff)

lemma eof_stream_read [simp]: "eof_count (snd (stream_read r sz w)) = eof_count w"
  by (simp add: eof_count_def)

lemma eof_onreadable_call [simp]: "eof_count (onreadable_call i sz w) = eof_count w"
proof (cases "source (bridge w)")
  case None
  then show ?thesis by (simp add: onreadable_call_def)
next
  case (Some src)
  obtain d w1 where r: "stream_read (s_stream src) sz w = (d, w1)" by force
  then have e: "eof_count w1 = eof_count w"
    using eof_stream_read [of "s_stream src" sz w] by simp
  show ?thesis
  proof (cases d)
    case None
    then show ?thesis using Some r e
      by (simp add: onreadable_call_def stream_once_def eof_count_def)
  next
    case (Some c)
    then show ?thesis using \<open>source (bridge w) = Some src\<close> r e
      by (simp add: onreadable_call_def stream_once_def eof_push) (simp add: eof_count_def)
  qed
qed











section \<open>Properties of the dispatcher\<close>

subsection \<open>Building the outbound request\<close>

text \<open>
  Claim C9, amended. For a POST or PUT request the constructor throws the error
  "Unsupported payload type" for a payload that is a number, a boolean, a bigint, a
  symbol or a function (every payload outside the accepted shapes but \<open>null\<close> and an
  array). \<open>null\<close>, an array and a plain object are handed to \<open>JSON.stringify\<close>: the
  constructor returns the object with the text as body, or throws what
  \<open>JSON.stringify\<close> threw. An absent payload, a text, a live stream and a buffer
  raise nothing. Every throw is in the constructor, so no \<open>dispatch\<close> follows it.
\<close>

theorem unsupported_payload:
  "toUpperCase (r_method req) = ''POST'' \<or> toUpperCase (r_method req) = ''PUT'' \<longrightarrow>
     (\<not> accepted_shape (r_payload req) \<and> r_payload req \<noteq> Null \<and> (\<forall>vs. r_payload req \<noteq> Array vs) \<longrightarrow>
        ProxyServer_new js req tgt = Inl (Error ''Unsupported payload type'')) \<and>
     (r_payload req = Null \<or> (\<exists>vs. r_payload req = Array vs) \<or> (\<exists>kvs. r_payload req = Object kvs) \<longrightarrow>
        (\<forall>e. JSON_stringify js (r_payload req) = Inl e \<longrightarrow> ProxyServer_new js req tgt = Inl e) \<and>
        (\<forall>s. JSON_stringify js (r_payload req) = Inr s \<longrightarrow>
           (\<exists>ps. ProxyServer_new js req tgt = Inr ps \<and> body ps = String s))) \<and>
     (accepted_shape (r_payload req) \<and> (\<forall>kvs. r_payload req \<noteq> Object kvs) \<longrightarrow>
        (\<exists>ps. ProxyServer_new js req tgt = Inr ps))"
proof (intro impI)
  assume m: "toUpperCase (r_method req) = ''POST'' \<or> toUpperCase (r_method req) = ''PUT''"
  show "(\<not> accepted_shape (r_payload req) \<and> r_payload req \<noteq> Null \<and> (\<forall>vs. r_payload req \<noteq> Array vs) \<longrightarrow>
        ProxyServer_new js req tgt = Inl (Error ''Unsupported payload type'')) \<and>
     (r_payload req = Null \<or> (\<exists>vs. r_payload req = Array vs) \<or> (\<exists>kvs. r_payload req = Object kvs) \<longrightarrow>
        (\<forall>e. JSON_stringify js (r_payload req) = Inl e \<longrightarrow> ProxyServer_new js req tgt = Inl e) \<and>
        (\<forall>s. JSON_stringify js (r_payload req) = Inr s \<longrightarrow>
           (\<exists>ps. ProxyServer_new js req tgt = Inr ps \<and> body ps = String s))) \<and>
     (accepted_shape (r_payload req) \<and> (\<forall>kvs. r_payload req \<noteq> Object kvs) \<longrightarrow>
        (\<exists>ps. ProxyServer_new js req tgt = Inr ps))"
    using m
    by (cases "r_payload req")
       (auto simp: accepted_shape_def ProxyServer_new_def Let_def setupProxyEvents_def)
qed

lemma example_post:
  "toUpperCase (r_method (example_request ''post'' p)) = ''POST''"
  "r_payload (example_request ''post'' p) = p"
  by (simp_all add: example_request_def toUpperCase_def)

theorem unsupported_payload_witness:
  "ProxyServer_new example_runtime (example_request ''post'' (Number 7)) ''http://127.0.0.1:4400//foo'' =
     Inl (Error ''Unsupported payload type'') \<and>
   (\<exists>ps. ProxyServer_new example_runtime (example_request ''post'' (Buffer ''abc''))
           ''http://127.0.0.1:4400//foo'' = Inr ps) \<and>
   (\<exists>ps. ProxyServer_new example_runtime (example_request ''post'' (Object [(''a'', Number 1)]))
           ''http://127.0.0.1:4400//foo'' = Inr ps \<and> body ps = String ''{\"a\":1}'')"
proof -
  have j: "JSON_stringify example_runtime (Object [(''a'', Number 1)]) = Inr ''{\"a\":1}''"
    by (simp add: example_runtime_def intersperse_def digits.simps)
  from unsupported_payload [of "example_request ''post'' (Number 7)" example_runtime
         "''http://127.0.0.1:4400//foo''"]
       unsupported_payload [of "example_request ''post'' (Buffer ''abc'')" example_runtime
         "''http://127.0.0.1:4400//foo''"]
       unsupported_payload [of "example_request ''post'' (Object [(''a'', Number 1)])" example_runtime
         "''http://127.0.0.1:4400//foo''"] j
  show ?thesis by (simp add: example_post accepted_shape_def)
qed

text \<open>
  Claim C9 as stated fails twice. An array is none of the accepted shapes, yet a POST
  with the payload \<open>[1]\<close> raises nothing: the array is serialized. A plain object is an
  accepted shape, yet a POST with the payload \<open>{a: 5n}\<close> throws: the \<open>TypeError\<close> of
  \<open>JSON.stringify\<close> leaves the constructor.
\<close>

theorem array_accepted_and_bigint_member_throws:
  "\<not> accepted_shape (Array [Number 1]) \<and>
   ProxyServer_new example_runtime (example_request ''post'' (Array [Number 1])) ''http://127.0.0.1:4400//foo'' =
     Inr \<lparr>target = ''http://127.0.0.1:4400//foo'', headers = Map.empty, http_method = ''POST'',
          path = ''/foo'', body = String ''[1]'', proxy_listeners = [''proxyReq'', ''error'']\<rparr> \<and>
   accepted_shape (Object [(''a'', BigInt 5)]) \<and>
   ProxyServer_new example_runtime (example_request ''post'' (Object [(''a'', BigInt 5)]))
       ''http://127.0.0.1:4400//foo'' =
     Inl (TypeError ''Do not know how to serialize a BigInt'')"
  by (simp add: accepted_shape_def ProxyServer_new_def example_runtime_def example_request_def
        Let_def toUpperCase_def setupProxyEvents_def intersperse_def digits.simps)

lemma pushed_body_bridge: "pushed (body_bridge s) = [Some s, None]"
  by (simp add: body_bridge_def push_def streamify_def)





subsection \<open>Hooks and the response\<close>

lemma effects_say [simp]: "effects (say e x) = effects x @ [e]"
  and details_say [simp]: "details (say e x) = details x"
  and tstate_say [simp]: "tstate (say e x) = tstate x"
  and response_say [simp]: "response (say e x) = response x"
  by (simp_all add: say_def)

lemma call_hook_fields [simp]:
  "effects (call_hook p t i req pr x) = effects x @ [HookStart p i, HookReturn p i]"
  "details (call_hook p t i req pr x) = fst (hook p t req pr (details x, tstate x))"
  "tstate (call_hook p t i req pr x) = snd (hook p t req pr (details x, tstate x))"
  "response (call_hook p t i req pr x) = response x"
  by (simp_all add: call_hook_def Let_def)

lemma hook_events_Suc: "hook_events p i (Suc n) = [HookStart p i, HookReturn p i] @ hook_events p (Suc i) n"
  by (simp add: hook_events_def upt_conv_Cons)

lemma hook_events_0 [simp]: "hook_events p i 0 = []"
  by (simp add: hook_events_def)

lemma effects_forEach_tracer:
  "effects (forEach_tracer p ts i req pr x) = effects x @ hook_events p i (length ts)"
  by (induction ts arbitrary: i x) (simp_all add: hook_events_Suc)

lemma response_forEach_tracer:
  "response (forEach_tracer p ts i req pr x) = response x"
  by (induction ts arbitrary: i x) simp_all

lemma state_forEach_tracer:
  "(details (forEach_tracer p ts i req pr x), tstate (forEach_tracer p ts i req pr x)) =
     fold (\<lambda>t. hook p t req pr) ts (details x, tstate x)"
proof (induction ts arbitrary: i x)
  case Nil
  show ?case by simp
next
  case (Cons t ts)
  have "(details (call_hook p t i req pr x), tstate (call_hook p t i req pr x)) =
        hook p t req pr (details x, tstate x)"
    by simp
  then show ?case
    using Cons.IH [of "Suc i" "call_hook p t i req pr x"] by simp
qed

lemmas forEach_tracer_fields = effects_forEach_tracer state_forEach_tracer response_forEach_tracer

lemma effects_invoke:
  "effects (invoke p tracer req pr x) = effects x @ hook_events p 0 (length (hooks_of tracer))"
  by (cases tracer) (simp_all add: invoke_def hooks_of_def effects_forEach_tracer hook_events_Suc)

lemma state_invoke:
  "(details (invoke p tracer req pr x), tstate (invoke p tracer req pr x)) =
     fold (\<lambda>t. hook p t req pr) (hooks_of tracer) (details x, tstate x)"
  by (cases tracer) (simp_all add: invoke_def hooks_of_def state_forEach_tracer)

lemma response_invoke: "response (invoke p tracer req pr x) = response x"
  by (cases tracer) (simp_all add: invoke_def response_forEach_tracer)

lemmas invoke_fields = effects_invoke state_invoke response_invoke

lemma effects_fold_say [simp]: "effects (fold say es x) = effects x @ es"
  and details_fold_say [simp]: "details (fold say es x) = details x"
  and tstate_fold_say [simp]: "tstate (fold say es x) = tstate x"
  and response_fold_say [simp]: "response (fold say es x) = response x"
  by (induction es arbitrary: x) simp_all

lemma on_response_fields:
  "effects (on_response tracer req pr x) =
     effects x @ hook_events FirstByte 0 (length (hooks_of tracer)) @
     [SetHeader ''X-Proxy-Server'' ''true''] @ relay pr"
  "response (on_response tracer req pr x) = Some pr"
  by (simp_all add: on_response_def Let_def invoke_fields)

lemma hook_events_two:
  "hook_events p 0 (Suc (Suc 0)) =
     [HookStart p 0, HookReturn p 0, HookStart p (Suc 0), HookReturn p (Suc 0)]"
  by (simp add: hook_events_Suc)

lemma forEach_tracer_append:
  "forEach_tracer p (ts1 @ ts2) i req pr x =
     forEach_tracer p ts2 (i + length ts1) req pr (forEach_tracer p ts1 i req pr x)"
  by (induction ts1 arbitrary: i x) simp_all

lemma hook_simps [simp]:
  "hook FirstByte t = onFirstByteReceived t" "hook End t = onEnd t" "hook Close t = onClose t"
  by (simp_all add: hook_def)

lemma state_on_response:
  "(details (on_response tracer req pr x), tstate (on_response tracer req pr x)) =
     fold (\<lambda>t. onFirstByteReceived t req pr) (hooks_of tracer)
       ((details x)\<lparr>statusCode := pr_statusCode pr, statusMessage := pr_statusMessage pr\<rparr>, tstate x)"
  using state_invoke [of FirstByte tracer req pr
          "x\<lparr>details := (details x)\<lparr>statusCode := pr_statusCode pr,
                                      statusMessage := pr_statusMessage pr\<rparr>\<rparr>"]
  by (simp add: on_response_def Let_def)

text \<open>
  Claim C6. At every lifecycle point the dispatcher calls that point's method of every
  tracer (\<open>onFirstByteReceived\<close> in the \<open>response\<close> listener, \<open>onEnd\<close> and \<open>onClose\<close>
  in the listeners of the upstream response's \<open>end\<close> and \<open>close\<close>), in registration
  order, each call after the return of the one before it: the tracers from some
  position on run on what the tracers before that position left, and the details and
  the tracers' state at the end are the methods applied one after the other. In the
  \<open>response\<close> listener all first-byte hooks have returned before the marker header is
  set and before the upstream body is piped or the diagnostic is sent.
\<close>

theorem hooks_in_registration_order:
  "effects (on_response tracer req proxyRes x) =
     effects x @ hook_events FirstByte 0 (length (hooks_of tracer)) @
     [SetHeader ''X-Proxy-Server'' ''true''] @ relay proxyRes \<and>
   (details (on_response tracer req proxyRes x), tstate (on_response tracer req proxyRes x)) =
     fold (\<lambda>t. onFirstByteReceived t req proxyRes) (hooks_of tracer)
       ((details x)\<lparr>statusCode := pr_statusCode proxyRes,
                     statusMessage := pr_statusMessage proxyRes\<rparr>, tstate x) \<and>
   response (on_response tracer req proxyRes x) = Some proxyRes \<and>
   (response y = Some proxyRes \<longrightarrow>
      effects (on_end tracer req y) = effects y @ hook_events End 0 (length (hooks_of tracer)) \<and>
      (details (on_end tracer req y), tstate (on_end tracer req y)) =
        fold (\<lambda>t. onEnd t req proxyRes) (hooks_of tracer) (details y, tstate y) \<and>
      response (on_end tracer req y) = Some proxyRes \<and>
      effects (on_close tracer req y) = effects y @ hook_events Close 0 (length (hooks_of tracer)) \<and>
      (details (on_close tracer req y), tstate (on_close tracer req y)) =
        fold (\<lambda>t. onClose t req proxyRes) (hooks_of tracer) (details y, tstate y) \<and>
      response (on_close tracer req y) = Some proxyRes) \<and>
   invoke p (Many (ts1 @ ts2)) req proxyRes x =
     forEach_tracer p ts2 (length ts1) req proxyRes (invoke p (Many ts1) req proxyRes x) \<and>
   call_hook p t i req proxyRes x =
     say (HookReturn p i)
       ((say (HookStart p i) x)
          \<lparr>details := fst ((case p of FirstByte \<Rightarrow> onFirstByteReceived t | End \<Rightarrow> onEnd t
                              | Close \<Rightarrow> onClose t) req proxyRes (details x, tstate x)),
           tstate := snd ((case p of FirstByte \<Rightarrow> onFirstByteReceived t | End \<Rightarrow> onEnd t
                             | Close \<Rightarrow> onClose t) req proxyRes (details x, tstate x))\<rparr>)"
proof -
  have e: "response y = Some proxyRes \<Longrightarrow>
      (details (on_end tracer req y), tstate (on_end tracer req y)) =
        fold (\<lambda>t. onEnd t req proxyRes) (hooks_of tracer) (details y, tstate y)"
    using state_invoke [of End tracer req proxyRes y] by (simp add: on_end_def)
  have c: "response y = Some proxyRes \<Longrightarrow>
      (details (on_close tracer req y), tstate (on_close tracer req y)) =
        fold (\<lambda>t. onClose t req proxyRes) (hooks_of tracer) (details y, tstate y)"
    using state_invoke [of Close tracer req proxyRes y] by (simp add: on_close_def)
  have a: "invoke p (Many (ts1 @ ts2)) req proxyRes x =
     forEach_tracer p ts2 (length ts1) req proxyRes (invoke p (Many ts1) req proxyRes x)"
    by (simp add: invoke_def forEach_tracer_append)
  have h: "call_hook p t i req proxyRes x =
     say (HookReturn p i)
       ((say (HookStart p i) x)
          \<lparr>details := fst ((case p of FirstByte \<Rightarrow> onFirstByteReceived t | End \<Rightarrow> onEnd t
                              | Close \<Rightarrow> onClose t) req proxyRes (details x, tstate x)),
           tstate := snd ((case p of FirstByte \<Rightarrow> onFirstByteReceived t | End \<Rightarrow> onEnd t
                             | Close \<Rightarrow> onClose t) req proxyRes (details x, tstate x))\<rparr>)"
    by (simp add: call_hook_def Let_def hook_def)
  show ?thesis
    using e c a h state_on_response [of tracer req proxyRes x]
    by (simp add: on_response_fields on_end_def on_close_def effects_invoke response_invoke)
qed

theorem hooks_in_registration_order_witness:
  "effects (on_close (Many [example_tracer 1, example_tracer 2]) example_req
     (on_end (Many [example_tracer 1, example_tracer 2]) example_req
       (on_response (Many [example_tracer 1, example_tracer 2]) example_req
          \<lparr>pr_statusCode = Some 200, pr_statusMessage = Some ''OK''\<rparr> (on_proxyReq 0 [])))) =
     [HookStart FirstByte 0, HookReturn FirstByte 0, HookStart FirstByte 1, HookReturn FirstByte 1,
      SetHeader ''X-Proxy-Server'' ''true'', Pipe,
      HookStart End 0, HookReturn End 0, HookStart End 1, HookReturn End 1,
      HookStart Close 0, HookReturn Close 0, HookStart Close 1, HookReturn Close 1] \<and>
   tstate (on_close (Many [example_tracer 1, example_tracer 2]) example_req
     (on_end (Many [example_tracer 1, example_tracer 2]) example_req
       (on_response (Many [example_tracer 1, example_tracer 2]) example_req
          \<lparr>pr_statusCode = Some 200, pr_statusMessage = Some ''OK''\<rparr> (on_proxyReq 0 [])))) =
     [(FirstByte, 1), (FirstByte, 2), (End, 1), (End, 2), (Close, 1), (Close, 2)]"
proof -
  let ?tr = "Many [example_tracer 1, example_tracer 2]"
  let ?pr = "\<lparr>pr_statusCode = Some 200, pr_statusMessage = Some ''OK''\<rparr>"
  let ?x = "on_proxyReq 0 ([] :: (lifecycle \<times> nat) list)"
  let ?r = "on_response ?tr example_req ?pr ?x"
  let ?e = "on_end ?tr example_req ?r"
  let ?c = "on_close ?tr example_req ?e"
  have l: "effects ?x = []" "tstate ?x = []" by (simp_all add: on_proxyReq_def)
  have n: "hooks_of (Many ts) = ts" for ts :: "(lifecycle \<times> nat) list Tracer list"
    by (simp add: hooks_of_def)
  note r = hooks_in_registration_order
             [of ?tr example_req ?pr ?x ?r FirstByte "[]" "[]" "example_tracer 1" 0]
  note e = hooks_in_registration_order
             [of ?tr example_req ?pr ?x ?e FirstByte "[]" "[]" "example_tracer 1" 0]
  from r have rr: "response ?r = Some ?pr" by blast
  from r rr have re: "response ?e = Some ?pr" by blast
  from r have "effects ?r = effects ?x @ hook_events FirstByte 0 (length (hooks_of ?tr)) @
      [SetHeader ''X-Proxy-Server'' ''true''] @ relay ?pr"
    by blast
  then have er: "effects ?r = [HookStart FirstByte 0, HookReturn FirstByte 0, HookStart FirstByte 1,
      HookReturn FirstByte 1, SetHeader ''X-Proxy-Server'' ''true'', Pipe]"
    by (simp add: l n relay_def hook_events_two)
  from r have "(details ?r, tstate ?r) =
      fold (\<lambda>t. onFirstByteReceived t example_req ?pr) (hooks_of ?tr)
       ((details ?x)\<lparr>statusCode := pr_statusCode ?pr, statusMessage := pr_statusMessage ?pr\<rparr>, tstate ?x)"
    by blast
  then have "tstate ?r = snd (fold (\<lambda>t. onFirstByteReceived t example_req ?pr) (hooks_of ?tr)
       ((details ?x)\<lparr>statusCode := pr_statusCode ?pr, statusMessage := pr_statusMessage ?pr\<rparr>, tstate ?x))"
    by (metis snd_conv)
  then have sr: "tstate ?r = [(FirstByte, 1), (FirstByte, 2)]"
    by (simp add: n l example_tracer_def)
  from r rr have "effects ?e = effects ?r @ hook_events End 0 (length (hooks_of ?tr))" by blast
  then have ee: "effects ?e = effects ?r @
      [HookStart End 0, HookReturn End 0, HookStart End 1, HookReturn End 1]"
    by (simp add: n hook_events_two)
  from r rr have "(details ?e, tstate ?e) =
      fold (\<lambda>t. onEnd t example_req ?pr) (hooks_of ?tr) (details ?r, tstate ?r)"
    by blast
  then have "tstate ?e = snd (fold (\<lambda>t. onEnd t example_req ?pr) (hooks_of ?tr) (details ?r, tstate ?r))"
    by (metis snd_conv)
  then have se: "tstate ?e = tstate ?r @ [(End, 1), (End, 2)]"
    by (simp add: n example_tracer_def)
  from e re have "effects ?c = effects ?e @ hook_events Close 0 (length (hooks_of ?tr))" by blast
  then have ec: "effects ?c = effects ?e @
      [HookStart Close 0, HookReturn Close 0, HookStart Close 1, HookReturn Close 1]"
    by (simp add: n hook_events_two)
  from e re have "(details ?c, tstate ?c) =
      fold (\<lambda>t. onClose t example_req ?pr) (hooks_of ?tr) (details ?e, tstate ?e)"
    by blast
  then have "tstate ?c = snd (fold (\<lambda>t. onClose t example_req ?pr) (hooks_of ?tr) (details ?e, tstate ?e))"
    by (metis snd_conv)
  then have sc: "tstate ?c = tstate ?e @ [(Close, 1), (Close, 2)]"
    by (simp add: n example_tracer_def)
  show ?thesis using er sr ee se ec sc by simp
qed

text \<open>
  Claim C4. For an upstream status of 400 or more, the \<open>response\<close> listener, after the
  first-byte hooks and the marker header, sets the content type to plain text and ends
  the response with the text "Error Occurred: proxyRes.statusCode: " followed by the
  decimal digits of the status; that text contains the digits, and nothing is piped.
\<close>

theorem upstream_error_status:
  assumes "pr_statusCode proxyRes = Some c" and "400 \<le> c"
  shows "\<exists>text. effects (on_response tracer req proxyRes x) =
           effects x @ hook_events FirstByte 0 (length (hooks_of tracer)) @
           [SetHeader ''X-Proxy-Server'' ''true'', SetHeader ''Content-Type'' ''text/plain'',
            ResEnd (Some text)] \<and>
         text = ''Error Occurred: proxyRes.statusCode: '' @ digits c \<and>
         sublist (digits c) text"
proof -
  let ?text = "''Error Occurred: proxyRes.statusCode: '' @ digits c"
  have "sublist (digits c) (''Error Occurred: proxyRes.statusCode: '' @ digits c @ [])"
    by (rule sublist_appendI)
  then have "sublist (digits c) ?text" by simp
  moreover have "effects (on_response tracer req proxyRes x) =
           effects x @ hook_events FirstByte 0 (length (hooks_of tracer)) @
           [SetHeader ''X-Proxy-Server'' ''true'', SetHeader ''Content-Type'' ''text/plain'',
            ResEnd (Some ?text)]"
    using assms by (simp add: on_response_fields relay_def template_def)
  ultimately show ?thesis by blast
qed

theorem upstream_error_status_witness:
  "effects (on_response (Many [example_tracer 1, example_tracer 2]) example_req
          \<lparr>pr_statusCode = Some 404, pr_statusMessage = Some ''Not Found''\<rparr> (on_proxyReq 0 [])) =
     [HookStart FirstByte 0, HookReturn FirstByte 0, HookStart FirstByte 1, HookReturn FirstByte 1,
      SetHeader ''X-Proxy-Server'' ''true'', SetHeader ''Content-Type'' ''text/plain'',
      ResEnd (Some ''Error Occurred: proxyRes.statusCode: 404'')] \<and>
   sublist ''404'' ''Error Occurred: proxyRes.statusCode: 404''"
proof -
  have d: "digits 404 = ''404''" by (simp add: digits.simps)
  have l: "effects (on_proxyReq 0 ([] :: (lifecycle \<times> nat) list)) = []"
    by (simp add: on_proxyReq_def)
  from upstream_error_status
         [of "\<lparr>pr_statusCode = Some 404, pr_statusMessage = Some ''Not Found''\<rparr>" 404
             "Many [example_tracer 1, example_tracer 2]" example_req "on_proxyReq 0 []"]
  show ?thesis by (simp add: d l hooks_of_def hook_events_two)
qed

subsection \<open>Transport failures\<close>

lemma new_listeners:
  assumes "ProxyServer_new js request tgt = Inr ps"
  shows "proxy_listeners ps = [''proxyReq'', ''error'']"
proof -
  have "\<exists>b. ps = setupProxyEvents
      \<lparr>target = tgt, headers = r_headers request, http_method = toUpperCase (r_method request),
       path = (if r_pathname request \<noteq> [] then r_pathname request else []),
       body = b, proxy_listeners = []\<rparr>"
    using assms
    by (cases "r_payload request")
       (auto simp: ProxyServer_new_def Let_def split: if_splits sum.splits)
  then show ?thesis by (auto simp: setupProxyEvents_def)
qed

text \<open>
  Claim C7. Every dispatcher the constructor returns listens to the proxy's \<open>error\<close>,
  so a transport failure, whatever it is, is thrown at nobody: a sink that is an HTTP
  response gets status 500, content type plain text and the fixed text; a sink that is
  a socket is ended with no data.
\<close>

theorem transport_failure_handled:
  "(ProxyServer_new js request tgt = Inr ps \<longrightarrow>
      proxy_fails ps err ServerResponse =
        (None, [WriteHead 500 [(''Content-Type'', ''text/plain'')],
                ResEnd (Some ''Something went wrong. And we are reporting a custom error message.'')]) \<and>
      proxy_fails ps err Socket = (None, [ResEnd None]))"
  by (simp add: new_listeners proxy_fails_def on_error_def)

theorem transport_failure_handled_witness:
  "proxy_fails \<lparr>target = ''http://127.0.0.1:4400//foo'', headers = Map.empty, http_method = ''GET'',
          path = ''/foo'', body = String [], proxy_listeners = [''proxyReq'', ''error'']\<rparr>
      ''ECONNREFUSED'' ServerResponse =
     (None, [WriteHead 500 [(''Content-Type'', ''text/plain'')],
             ResEnd (Some ''Something went wrong. And we are reporting a custom error message.'')]) \<and>
   proxy_fails \<lparr>target = ''http://127.0.0.1:4400//foo'', headers = Map.empty, http_method = ''GET'',
          path = ''/foo'', body = String [], proxy_listeners = [''proxyReq'', ''error'']\<rparr>
      ''ECONNREFUSED'' Socket = (None, [ResEnd None])"
proof -
  let ?ps = "\<lparr>target = ''http://127.0.0.1:4400//foo'', headers = Map.empty, http_method = ''GET'',
          path = ''/foo'', body = String [], proxy_listeners = [''proxyReq'', ''error'']\<rparr>"
  have n: "ProxyServer_new example_runtime (example_request ''get'' Undefined) ''http://127.0.0.1:4400//foo'' = Inr ?ps"
    by (simp add: ProxyServer_new_def example_request_def Let_def toUpperCase_def setupProxyEvents_def)
  from transport_failure_handled
         [of example_runtime "example_request ''get'' Undefined" "''http://127.0.0.1:4400//foo''" ?ps
             "''ECONNREFUSED''"] n
  show ?thesis by simp
qed

section \<open>Properties of the distributed tracer\<close>

lemma parseInt_empty: "parseInt [] = None"
  by (simp add: parseInt_def)

text \<open>Identifiers drawn at different times differ: \<open>digits\<close> can be read back.\<close>

lemma digit_value_nth: "n < 10 \<Longrightarrow> digit_value (''0123456789'' ! n) = Some n"
proof -
  assume "n < 10"
  then have "n \<in> {0, 1, 2, 3, 4, 5, 6, 7, 8, 9}" by auto
  then show ?thesis by (auto simp: digit_value_def)
qed

lemma digits_value: "foldl (\<lambda>a c. 10 * a + the (digit_value c)) 0 (digits n) = n"
proof (induction n rule: digits.induct)
  case (1 n)
  show ?case
  proof (cases "n < 10")
    case True
    then show ?thesis by (subst digits.simps) (simp add: digit_value_nth)
  next
    case False
    then show ?thesis
      using "1.IH" by (subst digits.simps) (simp add: digit_value_nth)
  qed
qed

lemma digits_inj: "digits m = digits n \<Longrightarrow> m = n"
  by (metis digits_value)

lemma continue_debug:
  "(if present (hs ''x-b3-flags'') then parseInt (the (hs ''x-b3-flags'')) = Some 1 else False)
     = (\<exists>f. hs ''x-b3-flags'' = Some f \<and> parseInt f = Some 1)"
  by (cases "hs ''x-b3-flags''") (auto simp: present_def parseInt_empty)

lemma root_context:
  assumes "\<not> present (hs ''x-b3-traceid'') \<or> \<not> present (hs ''x-b3-spanid'')"
  shows "z_traceId (fst (createOrContinueTrace hs (t, z))) =
           Some \<lparr>traceId = digits (drawn z), spanId = digits (drawn z), parentId = None,
                 sampled = Some True, debug = False\<rparr>"
    and "drawn (snd (createOrContinueTrace hs (t, z))) = Suc (drawn z)"
  using assms by (auto simp: createOrContinueTrace_def Let_def createRootId_def)

text \<open>
  Claim C5, amended. When the headers \<open>x-b3-traceid\<close> and \<open>x-b3-spanid\<close> are both
  present and not empty, with values \<open>T\<close> and \<open>S\<close>, the tracer's context has trace id
  \<open>T\<close>, span id \<open>S\<close>, the parent id of \<open>x-b3-parentspanid\<close> when that header is
  present and not empty, \<open>debug\<close> true exactly when \<open>x-b3-flags\<close> parses to 1, and
  \<open>sampled\<close> true when \<open>debug\<close> is true and otherwise present exactly when
  \<open>x-b3-sampled\<close> is present and not empty (true exactly when it is "1"). When either
  of the two headers is absent or empty, the context is a new root: its trace id and
  span id are a fresh identifier, it has no parent, and a later request without the
  headers, however many requests the shared tracer has served in between, gets another
  trace id. The shared tracer is given the same id and never takes back an identifier
  it has drawn.
\<close>

theorem trace_context_from_headers:
  "(hs ''x-b3-traceid'' = Some T \<and> T \<noteq> [] \<and> hs ''x-b3-spanid'' = Some S \<and> S \<noteq> [] \<longrightarrow>
      z_traceId (fst (createOrContinueTrace hs (t, z))) =
        Some \<lparr>traceId = T, spanId = S,
              parentId = (if present (hs ''x-b3-parentspanid'') then hs ''x-b3-parentspanid'' else None),
              sampled = (if (\<exists>f. hs ''x-b3-flags'' = Some f \<and> parseInt f = Some 1) then Some True
                         else if present (hs ''x-b3-sampled'')
                         then Some (hs ''x-b3-sampled'' = Some ''1'') else None),
              debug = (\<exists>f. hs ''x-b3-flags'' = Some f \<and> parseInt f = Some 1)\<rparr>) \<and>
   (\<not> present (hs ''x-b3-traceid'') \<or> \<not> present (hs ''x-b3-spanid'') \<longrightarrow>
      (\<exists>i. z_traceId (fst (createOrContinueTrace hs (t, z))) =
             Some \<lparr>traceId = i, spanId = i, parentId = None, sampled = Some True, debug = False\<rparr>) \<and>
      (\<forall>hs' t' z'.
          (\<not> present (hs' ''x-b3-traceid'') \<or> \<not> present (hs' ''x-b3-spanid'')) \<and>
          drawn (snd (createOrContinueTrace hs (t, z))) \<le> drawn z' \<longrightarrow>
          map_option traceId (z_traceId (fst (createOrContinueTrace hs' (t', z')))) \<noteq>
          map_option traceId (z_traceId (fst (createOrContinueTrace hs (t, z)))))) \<and>
   z_current (snd (createOrContinueTrace hs (t, z))) = z_traceId (fst (createOrContinueTrace hs (t, z))) \<and>
   drawn z \<le> drawn (snd (createOrContinueTrace hs (t, z)))"
proof (intro conjI impI allI)
  assume "hs ''x-b3-traceid'' = Some T \<and> T \<noteq> [] \<and> hs ''x-b3-spanid'' = Some S \<and> S \<noteq> []"
  then show "z_traceId (fst (createOrContinueTrace hs (t, z))) =
        Some \<lparr>traceId = T, spanId = S,
              parentId = (if present (hs ''x-b3-parentspanid'') then hs ''x-b3-parentspanid'' else None),
              sampled = (if (\<exists>f. hs ''x-b3-flags'' = Some f \<and> parseInt f = Some 1) then Some True
                         else if present (hs ''x-b3-sampled'')
                         then Some (hs ''x-b3-sampled'' = Some ''1'') else None),
              debug = (\<exists>f. hs ''x-b3-flags'' = Some f \<and> parseInt f = Some 1)\<rparr>"
    unfolding createOrContinueTrace_def Let_def continue_debug
    by (auto simp: present_def new_TraceId_def)
next
  assume r: "\<not> present (hs ''x-b3-traceid'') \<or> \<not> present (hs ''x-b3-spanid'')"
  show "\<exists>i. z_traceId (fst (createOrContinueTrace hs (t, z))) =
             Some \<lparr>traceId = i, spanId = i, parentId = None, sampled = Some True, debug = False\<rparr>"
    using root_context(1) [OF r] by blast
  fix hs' :: headers and t' :: ZipkinTracerImpl and z' :: zipkinTracer
  assume l: "(\<not> present (hs' ''x-b3-traceid'') \<or> \<not> present (hs' ''x-b3-spanid'')) \<and>
          drawn (snd (createOrContinueTrace hs (t, z))) \<le> drawn z'"
  then have "drawn z < drawn z'" using root_context(2) [OF r, of t z] by simp
  then have "digits (drawn z') \<noteq> digits (drawn z)" using digits_inj by fastforce
  then show "map_option traceId (z_traceId (fst (createOrContinueTrace hs' (t', z')))) \<noteq>
          map_option traceId (z_traceId (fst (createOrContinueTrace hs (t, z))))"
    using root_context(1) [OF r, of t z] l root_context(1) [of hs' t' z'] by auto
next
  show "z_current (snd (createOrContinueTrace hs (t, z))) = z_traceId (fst (createOrContinueTrace hs (t, z)))"
    by (simp add: createOrContinueTrace_def Let_def createRootId_def)
  show "drawn z \<le> drawn (snd (createOrContinueTrace hs (t, z)))"
    by (simp add: createOrContinueTrace_def Let_def createRootId_def)
qed

theorem trace_context_from_headers_witness:
  "z_traceId (fst (createOrContinueTrace
       [''x-b3-traceid'' \<mapsto> ''80f198ee56343ba8'', ''x-b3-spanid'' \<mapsto> ''e457b5a2e4d86bd1'',
        ''x-b3-sampled'' \<mapsto> ''0'']
       (no_tracer, zipkin0))) =
     Some \<lparr>traceId = ''80f198ee56343ba8'', spanId = ''e457b5a2e4d86bd1'', parentId = None,
           sampled = Some False, debug = False\<rparr> \<and>
   map_option traceId (z_traceId (fst (createOrContinueTrace Map.empty
       (no_tracer, snd (createOrContinueTrace Map.empty (no_tracer, zipkin0)))))) \<noteq>
   map_option traceId (z_traceId (fst (createOrContinueTrace Map.empty (no_tracer, zipkin0))))"
proof -
  let ?hs = "[''x-b3-traceid'' \<mapsto> ''80f198ee56343ba8'', ''x-b3-spanid'' \<mapsto> ''e457b5a2e4d86bd1'',
        ''x-b3-sampled'' \<mapsto> ''0''] :: headers"
  from trace_context_from_headers
         [of ?hs "''80f198ee56343ba8''" "''e457b5a2e4d86bd1''" no_tracer zipkin0]
  have a: "z_traceId (fst (createOrContinueTrace ?hs (no_tracer, zipkin0))) =
     Some \<lparr>traceId = ''80f198ee56343ba8'', spanId = ''e457b5a2e4d86bd1'', parentId = None,
           sampled = Some False, debug = False\<rparr>"
    by (simp add: present_def)
  have e: "\<not> present (Map.empty ''x-b3-traceid'') \<or> \<not> present (Map.empty ''x-b3-spanid'')"
    by (simp add: present_def)
  note later = trace_context_from_headers
    [of Map.empty "[]" "[]" no_tracer zipkin0,
     THEN conjunct2, THEN conjunct1, rule_format, THEN conjunct2, rule_format]
  have b: "map_option traceId (z_traceId (fst (createOrContinueTrace Map.empty
       (no_tracer, snd (createOrContinueTrace Map.empty (no_tracer, zipkin0)))))) \<noteq>
     map_option traceId (z_traceId (fst (createOrContinueTrace Map.empty (no_tracer, zipkin0))))"
    by (rule later [OF e]) (simp add: present_def)
  from a b show ?thesis by simp
qed

text \<open>
  Claim C5 as stated fails twice. With the header \<open>x-b3-traceid\<close> present and empty and
  a span id present, the context is not the headers' but a new root. With the flags
  header "1" and the sampled header "0", \<open>sampled\<close> is true although the header is not
  "1"; with the flags header "1" and no sampled header, \<open>sampled\<close> is present although
  the header is absent.
\<close>

theorem empty_header_and_debug_sampling:
  "z_traceId (fst (createOrContinueTrace
       [''x-b3-traceid'' \<mapsto> [], ''x-b3-spanid'' \<mapsto> ''e457b5a2e4d86bd1''] (no_tracer, zipkin0))) =
     Some \<lparr>traceId = ''0'', spanId = ''0'', parentId = None, sampled = Some True, debug = False\<rparr> \<and>
   z_traceId (fst (createOrContinueTrace
       [''x-b3-traceid'' \<mapsto> ''80f198ee56343ba8'', ''x-b3-spanid'' \<mapsto> ''e457b5a2e4d86bd1'',
        ''x-b3-sampled'' \<mapsto> ''0'', ''x-b3-flags'' \<mapsto> ''1''] (no_tracer, zipkin0))) =
     Some \<lparr>traceId = ''80f198ee56343ba8'', spanId = ''e457b5a2e4d86bd1'', parentId = None,
           sampled = Some True, debug = True\<rparr> \<and>
   z_traceId (fst (createOrContinueTrace
       [''x-b3-traceid'' \<mapsto> ''80f198ee56343ba8'', ''x-b3-spanid'' \<mapsto> ''e457b5a2e4d86bd1'',
        ''x-b3-flags'' \<mapsto> ''1''] (no_tracer, zipkin0))) =
     Some \<lparr>traceId = ''80f198ee56343ba8'', spanId = ''e457b5a2e4d86bd1'', parentId = None,
           sampled = Some True, debug = True\<rparr>"
proof -
  have p: "parseInt ''1'' = Some 1"
    by (simp add: parseInt_def StrWhiteSpaceChar_def digit_value_def)
  show ?thesis
    by (simp add: createOrContinueTrace_def createRootId_def new_TraceId_def present_def
          no_tracer_def zipkin0_def digits.simps p Let_def)
qed

end
